theory Spec2Isabelle
  imports Complex_Main "HOL-Library.AList"
begin

section \<open>JavaScript values\<close>

text \<open>
  A JavaScript string is a sequence of UTF-16 code units; \<open>charCodeAt\<close> reads one of
  them as a number. Code units are natural numbers here; \<open>js\<close> embeds a literal of the
  source.
\<close>

type_synonym jsstring = "nat list"

definition js :: "string \<Rightarrow> jsstring" where
  "js s = map of_char s"

datatype jsval =
    JUndefined
  | JNull
  | JBool bool
  | JStr jsstring
  | JArr "jsstring list"

text \<open>
  An object is the list of its own properties in insertion order. Reading a missing
  property gives \<open>undefined\<close>; assigning one replaces the value in place or appends the
  property, which is \<open>AList.update\<close>.
\<close>

type_synonym jsobj = "(jsstring \<times> jsval) list"

definition get_prop :: "jsobj \<Rightarrow> jsstring \<Rightarrow> jsval" where
  "get_prop obj k = (case map_of obj k of Some v \<Rightarrow> v | None \<Rightarrow> JUndefined)"

fun join :: "jsstring \<Rightarrow> jsstring list \<Rightarrow> jsstring" where
  "join sep [] = []"
| "join sep [x] = x"
| "join sep (x # y # ys) = x @ sep @ join sep (y # ys)"

text \<open>String conversion of a value inside a template literal.\<close>

fun to_str :: "jsval \<Rightarrow> jsstring" where
  "to_str JUndefined = js ''undefined''"
| "to_str JNull = js ''null''"
| "to_str (JBool b) = (if b then js ''true'' else js ''false'')"
| "to_str (JStr s) = s"
| "to_str (JArr xs) = join (js '','') xs"

fun truthy :: "jsval \<Rightarrow> bool" where
  "truthy JUndefined = False"
| "truthy JNull = False"
| "truthy (JBool b) = b"
| "truthy (JStr s) = (s \<noteq> [])"
| "truthy (JArr xs) = True"

section \<open>Field-name translation (SupabaseOperations.toSnakeCase, toCamelCase)\<close>

definition is_lower :: "nat \<Rightarrow> bool" where
  "is_lower c = (97 \<le> c \<and> c \<le> 122)"

definition is_upper :: "nat \<Rightarrow> bool" where
  "is_upper c = (65 \<le> c \<and> c \<le> 90)"

definition underscore :: nat where
  "underscore = 95"

text \<open>
  \<open>toLowerCase\<close> and \<open>toUpperCase\<close> on the ASCII letters. The names of the record
  schema have no other cased character.
\<close>

definition toLowerCase :: "jsstring \<Rightarrow> jsstring" where
  "toLowerCase s = map (\<lambda>c. if is_upper c then c + 32 else c) s"

definition toUpperCase :: "jsstring \<Rightarrow> jsstring" where
  "toUpperCase s = map (\<lambda>c. if is_lower c then c - 32 else c) s"

text \<open>
  \<open>.replace(/([a-z])([A-Z])/g, '$1_$2')\<close>: the matches are taken from left to right and
  do not overlap; a match consumes both characters.
\<close>

fun replace_lower_upper :: "jsstring \<Rightarrow> jsstring" where
  "replace_lower_upper (a # b # cs) =
     (if is_lower a \<and> is_upper b then a # underscore # b # replace_lower_upper cs
      else a # replace_lower_upper (b # cs))"
| "replace_lower_upper cs = cs"

text \<open>\<open>.replace(/([A-Z])([A-Z][a-z])/g, '$1_$2')\<close>: a match consumes three characters.\<close>

fun replace_upper_run :: "jsstring \<Rightarrow> jsstring" where
  "replace_upper_run (a # b # c # cs) =
     (if is_upper a \<and> is_upper b \<and> is_lower c
      then a # underscore # b # c # replace_upper_run cs
      else a # replace_upper_run (b # c # cs))"
| "replace_upper_run cs = cs"

text \<open>\<open>.replace(/^_/, '')\<close>\<close>

fun strip_leading_underscore :: "jsstring \<Rightarrow> jsstring" where
  "strip_leading_underscore [] = []"
| "strip_leading_underscore (c # cs) = (if c = underscore then cs else c # cs)"

definition snakeKey :: "jsstring \<Rightarrow> jsstring" where
  "snakeKey key =
     strip_leading_underscore (toLowerCase (replace_upper_run (replace_lower_upper key)))"

text \<open>\<open>key.replace(/_([a-z])/g, (g) => g[1].toUpperCase())\<close>\<close>

fun camelKey :: "jsstring \<Rightarrow> jsstring" where
  "camelKey (a # b # cs) =
     (if a = underscore \<and> is_lower b then toUpperCase [b] @ camelKey cs
      else a # camelKey (b # cs))"
| "camelKey cs = cs"

text \<open>
  The two utilities walk the own properties of an object in order and assign each value
  under the translated key. A property whose value is \<open>null\<close> or \<open>undefined\<close> keeps its
  name, lower-cased only. The guard \<open>if (!obj) return {}\<close> is for an argument that is
  not an object, which the type of \<open>obj\<close> leaves out here; no key is an array index,
  which the enumeration would move to the front.
\<close>

definition toSnakeCase :: "jsobj \<Rightarrow> jsobj" where
  "toSnakeCase obj =
     foldl (\<lambda>newObj (key, v).
              if v = JNull \<or> v = JUndefined then AList.update (toLowerCase key) v newObj
              else AList.update (snakeKey key) v newObj)
           [] obj"

definition toCamelCase :: "jsobj \<Rightarrow> jsobj" where
  "toCamelCase obj = foldl (\<lambda>newObj (key, v). AList.update (camelKey key) v newObj) [] obj"

section \<open>The record (types.ts)\<close>

datatype IOType = Text | Json | File | Image

fun io_name :: "IOType \<Rightarrow> jsstring" where
  "io_name Text = js ''text''"
| "io_name Json = js ''json''"
| "io_name File = js ''file''"
| "io_name Image = js ''image''"

record AccessPoint =
  ap_id :: jsstring
  subnetID :: jsstring
  subnetName :: jsstring
  description :: jsstring
  ap_input :: jsstring
  ap_output :: jsstring
  inputType :: IOType
  outputType :: IOType
  capabilities :: "jsstring list"
  tags :: "jsstring list"
  promptExample :: jsstring
  fileUpload :: bool
  fileDownload :: bool
  subnetURL :: jsstring

text \<open>
  The object a caller passes for a value of the interface \<open>AccessPoint\<close>, with its
  properties in the order of the interface; the optional \<open>createdAt\<close> and \<open>updatedAt\<close>
  are left out, as in the seed data.
\<close>

definition obj_of :: "AccessPoint \<Rightarrow> jsobj" where
  "obj_of a =
     [(js ''id'', JStr (ap_id a)),
      (js ''subnetID'', JStr (subnetID a)),
      (js ''subnetName'', JStr (subnetName a)),
      (js ''description'', JStr (description a)),
      (js ''input'', JStr (ap_input a)),
      (js ''output'', JStr (ap_output a)),
      (js ''inputType'', JStr (io_name (inputType a))),
      (js ''outputType'', JStr (io_name (outputType a))),
      (js ''capabilities'', JArr (capabilities a)),
      (js ''tags'', JArr (tags a)),
      (js ''promptExample'', JStr (promptExample a)),
      (js ''fileUpload'', JBool (fileUpload a)),
      (js ''fileDownload'', JBool (fileDownload a)),
      (js ''subnetURL'', JStr (subnetURL a))]"

section \<open>The fallback embedding (PineconeOperations.generateEmbedding)\<close>

definition EMBEDDING_DIMENSION :: nat where
  "EMBEDDING_DIMENSION = 1024"

text \<open>
  \<open>x | 0\<close> and the result of \<open>x << n\<close> are 32-bit two's complement integers: the
  argument is wrapped into \<open>[-2^31, 2^31)\<close>.
\<close>

definition to_int32 :: "int \<Rightarrow> int" where
  "to_int32 x = (x + 2 ^ 31) mod 2 ^ 32 - 2 ^ 31"

definition shift_left :: "int \<Rightarrow> nat \<Rightarrow> int" where
  "shift_left x n = to_int32 (to_int32 x * 2 ^ (n mod 32))"

text \<open>The remainder operator \<open>%\<close> of JavaScript truncates: the result has the sign of the dividend.\<close>

definition js_rem :: "int \<Rightarrow> int \<Rightarrow> int" where
  "js_rem a b = sgn a * (\<bar>a\<bar> mod \<bar>b\<bar>)"

datatype js_exn = TypeError jsstring

fun exn_message :: "js_exn \<Rightarrow> jsstring" where
  "exn_message (TypeError m) = m"

text \<open>
  \<open>value.join(', ')\<close>: defined on arrays; on \<open>undefined\<close> and \<open>null\<close> the property read
  throws, on any other value \<open>join\<close> is not a function.
\<close>

fun call_join :: "jsstring \<Rightarrow> jsval \<Rightarrow> js_exn + jsstring" where
  "call_join name (JArr xs) = Inr (join (js '', '') xs)"
| "call_join name JUndefined =
     Inl (TypeError (js ''Cannot read properties of undefined (reading 'join')''))"
| "call_join name JNull =
     Inl (TypeError (js ''Cannot read properties of null (reading 'join')''))"
| "call_join name v = Inl (TypeError (js ''accessPoint.'' @ name @ js ''.join is not a function''))"

definition newline :: jsstring where
  "newline = [10]"

definition textToEmbed :: "jsobj \<Rightarrow> js_exn + jsstring" where
  "textToEmbed accessPoint =
     (case call_join (js ''capabilities'') (get_prop accessPoint (js ''capabilities'')) of
        Inl e \<Rightarrow> Inl e
      | Inr caps \<Rightarrow>
     (case call_join (js ''tags'') (get_prop accessPoint (js ''tags'')) of
        Inl e \<Rightarrow> Inl e
      | Inr tgs \<Rightarrow>
          Inr (join newline (filter (\<lambda>line. line \<noteq> [])
            [js ''ID: '' @ to_str (get_prop accessPoint (js ''id'')),
             js ''Subnet: '' @ to_str (get_prop accessPoint (js ''subnetName''))
               @ js '' ('' @ to_str (get_prop accessPoint (js ''subnetID'')) @ js '')'',
             js ''Description: '' @ to_str (get_prop accessPoint (js ''description'')),
             js ''Input: '' @ to_str (get_prop accessPoint (js ''input''))
               @ js '' ('' @ to_str (get_prop accessPoint (js ''inputType'')) @ js '')'',
             js ''Output: '' @ to_str (get_prop accessPoint (js ''output''))
               @ js '' ('' @ to_str (get_prop accessPoint (js ''outputType'')) @ js '')'',
             js ''Capabilities: '' @ caps,
             js ''Tags: '' @ tgs,
             (if truthy (get_prop accessPoint (js ''promptExample''))
              then js ''Example: '' @ to_str (get_prop accessPoint (js ''promptExample''))
              else [])]))))"

text \<open>
  One round of the loop body: \<open>hash = ((hash << 5) - hash) + char; hash |= 0\<close>. The
  subtraction and the addition are exact on doubles of this size.
\<close>

definition hash_step :: "int \<Rightarrow> nat \<Rightarrow> int" where
  "hash_step hash char = to_int32 ((shift_left hash 5 - hash) + int char)"

text \<open>
  \<open>(hash % 2000 - 1000) / 1000\<close>. Both operands of the division are integers, so the
  double that JavaScript stores is the correctly rounded value of this quotient; the
  model keeps the quotient itself.
\<close>

definition slot_value :: "int \<Rightarrow> real" where
  "slot_value hash = real_of_int (js_rem hash 2000 - 1000) / 1000"

text \<open>The loop \<open>for (let i = 0; i < textToEmbed.length; i++)\<close>, from position \<open>i\<close> on.\<close>

fun embed_loop :: "nat \<Rightarrow> jsstring \<Rightarrow> int \<Rightarrow> real list \<Rightarrow> real list" where
  "embed_loop i [] hash vector = vector"
| "embed_loop i (char # rest) hash vector =
     embed_loop (i + 1) rest (hash_step hash char)
       (vector[i mod EMBEDDING_DIMENSION := slot_value (hash_step hash char)])"

definition hash_vector :: "jsstring \<Rightarrow> real list" where
  "hash_vector text = embed_loop 0 text 0 (replicate EMBEDDING_DIMENSION 0)"

text \<open>
  \<open>openai_api_key\<close> is \<open>process.env.OPENAI_API_KEY\<close>. When it is set the source only
  prints a message (the provider call is a placeholder) and goes on to the hash-based
  vector, as it does when the key is missing. Console output is not part of the model.
\<close>

definition generateEmbedding :: "jsstring option \<Rightarrow> jsobj \<Rightarrow> js_exn + real list" where
  "generateEmbedding openai_api_key accessPoint =
     (case textToEmbed accessPoint of
        Inl e \<Rightarrow> Inl e
      | Inr text \<Rightarrow>
          (if openai_api_key \<noteq> None \<and> openai_api_key \<noteq> Some [] then Inr (hash_vector text)
           else Inr (hash_vector text)))"

section \<open>The two backends\<close>

text \<open>
  The relational table and the vector index are external services, reached through the
  supabase-js and Pinecone clients. The model keeps the contents of both, the requests
  issued so far, and the outcome of every request still to come: \<open>faults\<close> lists, in
  the order the requests are issued, whether the backend serves the request (\<open>None\<close>) or
  rejects it with an error (transport, authorisation, a violated constraint of the
  schema). Requests beyond the end of the list are served.
\<close>

datatype backend_error = BackendError (err_code: jsstring) (err_message: jsstring)

record VectorData =
  vd_id :: jsval
  vd_values :: "real list"
  vd_metadata :: jsobj

record ScoredVector =
  match_id :: jsstring
  match_score :: real

datatype request =
    StoreInsert jsobj
  | StoreUpdate jsstring jsobj
  | StoreSelect jsstring
  | StoreDelete jsstring
  | StoreUpsert "jsobj list"
  | StoreRpc jsstring
  | PgConnect
  | PgDelete jsstring
  | IndexUpsert "VectorData list"
  | IndexDelete jsstring
  | IndexQuery "real list" nat

fun is_index_request :: "request \<Rightarrow> bool" where
  "is_index_request (IndexUpsert vs) = True"
| "is_index_request (IndexDelete k) = True"
| "is_index_request (IndexQuery v n) = True"
| "is_index_request r = False"

text \<open>
  \<open>search_rpc\<close> is the server-side procedure \<open>search_access_points\<close> and \<open>nearest\<close> the
  similarity ranking of the index: both are computed by the backends from their
  contents and are parameters here. \<open>now\<close> is the string that
  \<open>new Date().toISOString()\<close> gives while an operation runs.
\<close>

record world =
  rows :: "jsstring \<rightharpoonup> jsobj"
  vectors :: "jsstring \<rightharpoonup> VectorData"
  faults :: "backend_error option list"
  requests :: "request list"
  now :: jsstring
  openai_api_key :: "jsstring option"
  search_rpc :: "(jsstring \<rightharpoonup> jsobj) \<Rightarrow> jsstring \<Rightarrow> jsobj list"
  nearest :: "(jsstring \<rightharpoonup> VectorData) \<Rightarrow> real list \<Rightarrow> nat \<Rightarrow> ScoredVector list"

definition issue :: "request \<Rightarrow> world \<Rightarrow> backend_error option \<times> world" where
  "issue req w =
     (case faults w of
        [] \<Rightarrow> (None, w\<lparr>requests := requests w @ [req]\<rparr>)
      | f # fs \<Rightarrow> (f, w\<lparr>faults := fs, requests := requests w @ [req]\<rparr>))"

text \<open>The outcome waiting for the \<open>n\<close>-th request from now.\<close>

definition pending :: "world \<Rightarrow> nat \<Rightarrow> backend_error option" where
  "pending w n = (if n < length (faults w) then faults w ! n else None)"

text \<open>The world once the next request has been issued and answered.\<close>

definition advance :: "request \<Rightarrow> world \<Rightarrow> world" where
  "advance req w = w\<lparr>faults := tl (faults w), requests := requests w @ [req]\<rparr>"

subsection \<open>The table \<open>access_points\<close>\<close>

text \<open>A request body is JSON: properties whose value is \<open>undefined\<close> are not sent.\<close>

definition json_body :: "jsobj \<Rightarrow> jsobj" where
  "json_body obj = filter (\<lambda>(k, v). v \<noteq> JUndefined) obj"

text \<open>The primary key \<open>id\<close> of a row: a string, never null.\<close>

definition row_id :: "jsobj \<Rightarrow> jsstring option" where
  "row_id row = (case get_prop row (js ''id'') of JStr s \<Rightarrow> Some s | _ \<Rightarrow> None)"

definition assign :: "jsobj \<Rightarrow> jsobj \<Rightarrow> jsobj" where
  "assign row updates = foldl (\<lambda>r (k, v). AList.update k v r) row updates"

definition not_null_violation :: backend_error where
  "not_null_violation =
     BackendError (js ''23502'') (js ''null value in column id violates not-null constraint'')"

definition unique_violation :: backend_error where
  "unique_violation =
     BackendError (js ''23505'') (js ''duplicate key value violates unique constraint'')"

definition cardinality_violation :: backend_error where
  "cardinality_violation =
     BackendError (js ''21000'')
       (js ''ON CONFLICT DO UPDATE command cannot affect row a second time'')"

text \<open>The error of \<open>.single()\<close> when the request selects no row.\<close>

definition no_rows :: backend_error where
  "no_rows = BackendError (js ''PGRST116'') (js ''JSON object requested, multiple (or no) rows returned'')"

text \<open>\<open>.insert([row]).select().single()\<close>\<close>

definition sb_insert :: "jsobj \<Rightarrow> world \<Rightarrow> (backend_error + jsobj) \<times> world" where
  "sb_insert payload w =
     (let row = json_body payload in
      case issue (StoreInsert row) w of
        (Some e, w') \<Rightarrow> (Inl e, w')
      | (None, w') \<Rightarrow>
          (case row_id row of
             None \<Rightarrow> (Inl not_null_violation, w')
           | Some k \<Rightarrow>
               if rows w' k \<noteq> None then (Inl unique_violation, w')
               else (Inr row, w'\<lparr>rows := (rows w')(k \<mapsto> row)\<rparr>)))"

text \<open>\<open>.update(payload).eq('id', id).select().single()\<close>\<close>

definition sb_update :: "jsstring \<Rightarrow> jsobj \<Rightarrow> world \<Rightarrow> (backend_error + jsobj) \<times> world" where
  "sb_update ident payload w =
     (let updates = json_body payload in
      case issue (StoreUpdate ident updates) w of
        (Some e, w') \<Rightarrow> (Inl e, w')
      | (None, w') \<Rightarrow>
          (case rows w' ident of
             None \<Rightarrow> (Inl no_rows, w')
           | Some old \<Rightarrow>
               (let row = assign old updates in
                case row_id row of
                  None \<Rightarrow> (Inl not_null_violation, w')
                | Some k \<Rightarrow>
                    if k \<noteq> ident \<and> rows w' k \<noteq> None then (Inl unique_violation, w')
                    else (Inr row, w'\<lparr>rows := ((rows w')(ident := None))(k \<mapsto> row)\<rparr>))))"

text \<open>\<open>.select('*').eq('id', id).single()\<close>\<close>

definition sb_select :: "jsstring \<Rightarrow> world \<Rightarrow> (backend_error + jsobj) \<times> world" where
  "sb_select ident w =
     (case issue (StoreSelect ident) w of
        (Some e, w') \<Rightarrow> (Inl e, w')
      | (None, w') \<Rightarrow>
          (case rows w' ident of
             None \<Rightarrow> (Inl no_rows, w')
           | Some row \<Rightarrow> (Inr row, w')))"

text \<open>\<open>.delete().eq('id', id)\<close>: a filter that matches no row is not an error.\<close>

definition sb_delete :: "jsstring \<Rightarrow> world \<Rightarrow> backend_error option \<times> world" where
  "sb_delete ident w =
     (case issue (StoreDelete ident) w of
        (Some e, w') \<Rightarrow> (Some e, w')
      | (None, w') \<Rightarrow> (None, w'\<lparr>rows := (rows w')(ident := None)\<rparr>))"

text \<open>
  \<open>.upsert(batch, { onConflict: 'id' })\<close>: one statement, so the batch is stored whole
  or not at all. A row whose \<open>id\<close> exists is overwritten column by column.
\<close>

definition upsert_row :: "(jsstring \<rightharpoonup> jsobj) \<Rightarrow> jsobj \<Rightarrow> (jsstring \<rightharpoonup> jsobj)" where
  "upsert_row t row =
     (case row_id row of
        None \<Rightarrow> t
      | Some k \<Rightarrow> (case t k of None \<Rightarrow> t(k \<mapsto> row) | Some old \<Rightarrow> t(k \<mapsto> assign old row)))"

definition sb_upsert :: "jsobj list \<Rightarrow> world \<Rightarrow> backend_error option \<times> world" where
  "sb_upsert payload w =
     (let batch = map json_body payload in
      case issue (StoreUpsert batch) w of
        (Some e, w') \<Rightarrow> (Some e, w')
      | (None, w') \<Rightarrow>
          if list_ex (\<lambda>row. row_id row = None) batch then (Some not_null_violation, w')
          else if \<not> distinct (map row_id batch) then (Some cardinality_violation, w')
          else (None, w'\<lparr>rows := foldl upsert_row (rows w') batch\<rparr>))"

text \<open>\<open>.rpc('search_access_points', { search_query: query }).order(...)\<close>\<close>

definition sb_rpc_search :: "jsstring \<Rightarrow> world \<Rightarrow> (backend_error + jsobj list) \<times> world" where
  "sb_rpc_search query w =
     (case issue (StoreRpc query) w of
        (Some e, w') \<Rightarrow> (Inl e, w')
      | (None, w') \<Rightarrow> (Inr (search_rpc w' (rows w') query), w'))"

subsection \<open>The same table through a \<open>pg\<close> connection\<close>

definition pg_connect :: "world \<Rightarrow> backend_error option \<times> world" where
  "pg_connect w = issue PgConnect w"

text \<open>\<open>DELETE FROM access_points WHERE id = $1\<close>, giving \<open>rowCount\<close>.\<close>

definition pg_delete :: "jsstring \<Rightarrow> world \<Rightarrow> (backend_error + nat) \<times> world" where
  "pg_delete ident w =
     (case issue (PgDelete ident) w of
        (Some e, w') \<Rightarrow> (Inl e, w')
      | (None, w') \<Rightarrow>
          (Inr (if rows w' ident = None then 0 else 1), w'\<lparr>rows := (rows w')(ident := None)\<rparr>))"

subsection \<open>The vector index\<close>

definition invalid_vector_id :: backend_error where
  "invalid_vector_id = BackendError (js ''PineconeArgumentError'') (js ''The id of a record must be a string'')"

definition vector_key :: "VectorData \<Rightarrow> jsstring option" where
  "vector_key v = (case vd_id v of JStr s \<Rightarrow> Some s | _ \<Rightarrow> None)"

definition put_vector :: "(jsstring \<rightharpoonup> VectorData) \<Rightarrow> VectorData \<Rightarrow> (jsstring \<rightharpoonup> VectorData)" where
  "put_vector ix v = (case vector_key v of None \<Rightarrow> ix | Some k \<Rightarrow> ix(k \<mapsto> v))"

text \<open>\<open>index.upsert(batch)\<close>: an entry with the same id is overwritten.\<close>

definition px_upsert :: "VectorData list \<Rightarrow> world \<Rightarrow> backend_error option \<times> world" where
  "px_upsert batch w =
     (case issue (IndexUpsert batch) w of
        (Some e, w') \<Rightarrow> (Some e, w')
      | (None, w') \<Rightarrow>
          if list_ex (\<lambda>v. vector_key v = None) batch then (Some invalid_vector_id, w')
          else (None, w'\<lparr>vectors := foldl put_vector (vectors w') batch\<rparr>))"

text \<open>\<open>index.deleteOne(id)\<close>: deleting an id the index does not hold is not an error.\<close>

definition px_deleteOne :: "jsstring \<Rightarrow> world \<Rightarrow> backend_error option \<times> world" where
  "px_deleteOne ident w =
     (case issue (IndexDelete ident) w of
        (Some e, w') \<Rightarrow> (Some e, w')
      | (None, w') \<Rightarrow> (None, w'\<lparr>vectors := (vectors w')(ident := None)\<rparr>))"

text \<open>\<open>index.query({ vector, topK, includeMetadata: true })\<close>, giving \<open>matches\<close>.\<close>

definition px_query :: "real list \<Rightarrow> nat \<Rightarrow> world \<Rightarrow> (backend_error + ScoredVector list) \<times> world" where
  "px_query vector topK w =
     (case issue (IndexQuery vector topK) w of
        (Some e, w') \<Rightarrow> (Inl e, w')
      | (None, w') \<Rightarrow> (Inr (nearest w' (vectors w') vector topK), w'))"

section \<open>The result envelope (types.ts, APIResponse)\<close>

record 'a APIResponse =
  success :: bool
  data :: "'a option"
  error :: "jsstring option"

definition ok :: "'a \<Rightarrow> 'a APIResponse" where
  "ok d = \<lparr>success = True, data = Some d, error = None\<rparr>"

definition ok_void :: "'a APIResponse" where
  "ok_void = \<lparr>success = True, data = None, error = None\<rparr>"

definition failure :: "jsstring \<Rightarrow> 'a APIResponse" where
  "failure m = \<lparr>success = False, data = None, error = Some m\<rparr>"

section \<open>SupabaseOperations\<close>

text \<open>
  Every method catches what it awaits and returns an envelope; the error that the
  client returns and the exception it may throw lead to the same envelope, except in
  \<open>bulkInsertAccessPoints\<close>, where the model takes the returned error.
\<close>

definition with_timestamps :: "jsstring \<Rightarrow> jsobj \<Rightarrow> jsobj" where
  "with_timestamps t obj =
     AList.update (js ''updated_at'') (JStr t) (AList.update (js ''created_at'') (JStr t) obj)"

definition Supabase_createAccessPoint :: "jsobj \<Rightarrow> world \<Rightarrow> jsobj APIResponse \<times> world" where
  "Supabase_createAccessPoint accessPoint w =
     (let dataToInsert = with_timestamps (now w) (toSnakeCase accessPoint) in
      case sb_insert dataToInsert w of
        (Inl e, w') \<Rightarrow> (failure (js ''Failed to create access point: '' @ err_message e), w')
      | (Inr row, w') \<Rightarrow> (ok (toCamelCase row), w'))"

definition Supabase_updateAccessPoint ::
  "jsstring \<Rightarrow> jsobj \<Rightarrow> world \<Rightarrow> jsobj APIResponse \<times> world" where
  "Supabase_updateAccessPoint ident updates w =
     (let dataToUpdate = AList.update (js ''updated_at'') (JStr (now w)) (toSnakeCase updates) in
      case sb_update ident dataToUpdate w of
        (Inl e, w') \<Rightarrow> (failure (js ''Failed to update access point: '' @ err_message e), w')
      | (Inr row, w') \<Rightarrow> (ok (toCamelCase row), w'))"

definition not_found :: "jsstring \<Rightarrow> jsstring" where
  "not_found ident = js ''Access point with id '' @ ident @ js '' not found.''"

definition Supabase_getAccessPoint :: "jsstring \<Rightarrow> world \<Rightarrow> jsobj APIResponse \<times> world" where
  "Supabase_getAccessPoint ident w =
     (case sb_select ident w of
        (Inl e, w') \<Rightarrow>
          (if err_code e = js ''PGRST116'' then (failure (not_found ident), w')
           else (failure (js ''Failed to get access point: '' @ err_message e), w'))
      | (Inr row, w') \<Rightarrow> (ok (toCamelCase row), w'))"

definition Supabase_deleteAccessPoint :: "jsstring \<Rightarrow> world \<Rightarrow> unit APIResponse \<times> world" where
  "Supabase_deleteAccessPoint ident w =
     (case sb_delete ident w of
        (Some e, w') \<Rightarrow> (failure (js ''Failed to delete access point: '' @ err_message e), w')
      | (None, w') \<Rightarrow> (ok_void, w'))"

definition Supabase_searchAccessPoints ::
  "jsstring \<Rightarrow> world \<Rightarrow> jsobj list APIResponse \<times> world" where
  "Supabase_searchAccessPoints query w =
     (case sb_rpc_search query w of
        (Inl e, w') \<Rightarrow> (failure (js ''Failed to search access points: '' @ err_message e), w')
      | (Inr found, w') \<Rightarrow> (ok (map toCamelCase found), w'))"

text \<open>\<open>s.includes(sub)\<close>\<close>

fun str_includes :: "jsstring \<Rightarrow> jsstring \<Rightarrow> bool" where
  "str_includes [] sub = (sub = [])"
| "str_includes (c # cs) sub = (take (length sub) (c # cs) = sub \<or> str_includes cs sub)"

definition Supabase_bulkInsertAccessPoints ::
  "jsobj list \<Rightarrow> world \<Rightarrow> unit APIResponse \<times> world" where
  "Supabase_bulkInsertAccessPoints accessPoints w =
     (let dataToInsert = map (\<lambda>ap. with_timestamps (now w) (toSnakeCase ap)) accessPoints in
      case sb_upsert dataToInsert w of
        (Some e, w') \<Rightarrow>
          (if err_code e = js ''42501'' \<and> str_includes (err_message e) (js ''row-level security policy'')
           then (failure (js ''Row-level security policy violation. Please ensure your API key has the necessary permissions.''), w')
           else (failure (js ''Failed to bulk insert access points: '' @ err_message e), w'))
      | (None, w') \<Rightarrow> (ok_void, w'))"

section \<open>DatabaseOperations.deleteAccessPoint\<close>

definition Database_deleteAccessPoint :: "jsstring \<Rightarrow> world \<Rightarrow> unit APIResponse \<times> world" where
  "Database_deleteAccessPoint ident w =
     (case pg_connect w of
        (Some e, w') \<Rightarrow> (failure (js ''Failed to delete access point: '' @ err_message e), w')
      | (None, w') \<Rightarrow>
          (case pg_delete ident w' of
             (Inl e, w'') \<Rightarrow> (failure (js ''Failed to delete access point: '' @ err_message e), w'')
           | (Inr rowCount, w'') \<Rightarrow>
               (if rowCount = 0 then (failure (not_found ident), w'') else (ok_void, w''))))"

section \<open>PineconeOperations\<close>

text \<open>\<open>a || b\<close>\<close>

definition or_else :: "jsval \<Rightarrow> jsval \<Rightarrow> jsval" where
  "or_else a b = (if truthy a then a else b)"

definition vectorData :: "jsobj \<Rightarrow> real list \<Rightarrow> VectorData" where
  "vectorData accessPoint embedding =
     \<lparr>vd_id = get_prop accessPoint (js ''id''),
      vd_values = embedding,
      vd_metadata =
        [(js ''id'', get_prop accessPoint (js ''id'')),
         (js ''subnetID'', get_prop accessPoint (js ''subnetID'')),
         (js ''description'', get_prop accessPoint (js ''description'')),
         (js ''fileUpload'', get_prop accessPoint (js ''fileUpload'')),
         (js ''fileDownload'', get_prop accessPoint (js ''fileDownload'')),
         (js ''promptExample'', or_else (get_prop accessPoint (js ''promptExample'')) (JStr [])),
         (js ''tags'', or_else (get_prop accessPoint (js ''tags'')) (JArr []))]\<rparr>"

definition Pinecone_upsertAccessPoint :: "jsobj \<Rightarrow> world \<Rightarrow> unit APIResponse \<times> world" where
  "Pinecone_upsertAccessPoint accessPoint w =
     (case generateEmbedding (openai_api_key w) accessPoint of
        Inl e \<Rightarrow> (failure (js ''Failed to upsert to Pinecone: '' @ exn_message e), w)
      | Inr embedding \<Rightarrow>
          (case px_upsert [vectorData accessPoint embedding] w of
             (Some e, w') \<Rightarrow> (failure (js ''Failed to upsert to Pinecone: '' @ err_message e), w')
           | (None, w') \<Rightarrow> (ok_void, w')))"

definition Pinecone_updateAccessPoint :: "jsobj \<Rightarrow> world \<Rightarrow> unit APIResponse \<times> world" where
  "Pinecone_updateAccessPoint accessPoint w = Pinecone_upsertAccessPoint accessPoint w"

text \<open>\<open>query.split(' ')\<close>\<close>

fun split_space :: "jsstring \<Rightarrow> jsstring list" where
  "split_space [] = [[]]"
| "split_space (c # cs) =
     (if c = 32 then [] # split_space cs
      else (case split_space cs of [] \<Rightarrow> [[c]] | x # xs \<Rightarrow> (c # x) # xs))"

definition queryAccessPoint :: "jsstring \<Rightarrow> jsobj" where
  "queryAccessPoint query =
     [(js ''id'', JStr (js ''query'')),
      (js ''subnetID'', JStr []),
      (js ''subnetName'', JStr []),
      (js ''description'', JStr query),
      (js ''input'', JStr []),
      (js ''output'', JStr []),
      (js ''inputType'', JStr (js ''text'')),
      (js ''outputType'', JStr (js ''text'')),
      (js ''capabilities'', JArr []),
      (js ''tags'', JArr (split_space query)),
      (js ''promptExample'', JStr []),
      (js ''fileUpload'', JBool False),
      (js ''fileDownload'', JBool False),
      (js ''subnetURL'', JStr [])]"

definition Pinecone_searchSimilar ::
  "jsstring \<Rightarrow> nat \<Rightarrow> world \<Rightarrow> ScoredVector list APIResponse \<times> world" where
  "Pinecone_searchSimilar query topK w =
     (case generateEmbedding (openai_api_key w) (queryAccessPoint query) of
        Inl e \<Rightarrow> (failure (js ''Failed to search Pinecone: '' @ exn_message e), w)
      | Inr queryEmbedding \<Rightarrow>
          (case px_query queryEmbedding topK w of
             (Inl e, w') \<Rightarrow> (failure (js ''Failed to search Pinecone: '' @ err_message e), w')
           | (Inr matches, w') \<Rightarrow> (ok matches, w')))"

definition Pinecone_deleteAccessPoint :: "jsstring \<Rightarrow> world \<Rightarrow> unit APIResponse \<times> world" where
  "Pinecone_deleteAccessPoint ident w =
     (case px_deleteOne ident w of
        (Some e, w') \<Rightarrow> (failure (js ''Failed to delete from Pinecone: '' @ err_message e), w')
      | (None, w') \<Rightarrow> (ok_void, w'))"

text \<open>The first loop of \<open>bulkUpsertAccessPoints\<close>: an exception ends it.\<close>

fun build_vectors :: "jsstring option \<Rightarrow> jsobj list \<Rightarrow> js_exn + VectorData list" where
  "build_vectors key [] = Inr []"
| "build_vectors key (accessPoint # rest) =
     (case generateEmbedding key accessPoint of
        Inl e \<Rightarrow> Inl e
      | Inr embedding \<Rightarrow>
          (case build_vectors key rest of
             Inl e \<Rightarrow> Inl e
           | Inr vs \<Rightarrow> Inr (vectorData accessPoint embedding # vs)))"

definition chunkSize :: nat where
  "chunkSize = 100"

text \<open>
  The second loop: \<open>for (let i = 0; i < vectorsData.length; i += chunkSize)\<close> over what
  is left of \<open>vectorsData\<close> from \<open>i\<close> on. A rejected chunk ends it; the chunks before
  stay in the index.
\<close>

function upsert_chunks :: "VectorData list \<Rightarrow> world \<Rightarrow> backend_error option \<times> world" where
  "upsert_chunks vectorsData w =
     (if vectorsData = [] then (None, w)
      else (case px_upsert (take chunkSize vectorsData) w of
              (Some e, w') \<Rightarrow> (Some e, w')
            | (None, w') \<Rightarrow> upsert_chunks (drop chunkSize vectorsData) w'))"
  by pat_completeness auto
termination
  by (relation "measure (\<lambda>(vs, w). length vs)") (auto simp: chunkSize_def)

declare upsert_chunks.simps [simp del]

definition Pinecone_bulkUpsertAccessPoints ::
  "jsobj list \<Rightarrow> world \<Rightarrow> unit APIResponse \<times> world" where
  "Pinecone_bulkUpsertAccessPoints accessPoints w =
     (case build_vectors (openai_api_key w) accessPoints of
        Inl e \<Rightarrow> (failure (js ''Failed to bulk upsert to Pinecone: '' @ exn_message e), w)
      | Inr vectorsData \<Rightarrow>
          (case upsert_chunks vectorsData w of
             (Some e, w') \<Rightarrow>
               (failure (js ''Failed to bulk upsert to Pinecone: '' @ err_message e), w')
           | (None, w') \<Rightarrow> (ok_void, w')))"

section \<open>DataSyncManager\<close>

text \<open>
  The methods of the two adapters return envelopes and do not throw, so the
  \<open>catch\<close> blocks of the manager are not entered and have no counterpart here.
\<close>

definition DataSync_createAccessPoint :: "jsobj \<Rightarrow> world \<Rightarrow> jsobj APIResponse \<times> world" where
  "DataSync_createAccessPoint accessPoint w =
     (case Supabase_createAccessPoint accessPoint w of (supabaseResult, w1) \<Rightarrow>
        if \<not> success supabaseResult then (supabaseResult, w1)
        else (case Pinecone_upsertAccessPoint accessPoint w1 of (pineconeResult, w2) \<Rightarrow>
          if \<not> success pineconeResult then
            (case Supabase_deleteAccessPoint (to_str (get_prop accessPoint (js ''id''))) w2 of
               (rollback, w3) \<Rightarrow>
                 (failure (js ''Failed to sync to Pinecone, rolled back Supabase''), w3))
          else (supabaseResult, w2)))"

definition DataSync_updateAccessPoint ::
  "jsstring \<Rightarrow> jsobj \<Rightarrow> world \<Rightarrow> jsobj APIResponse \<times> world" where
  "DataSync_updateAccessPoint ident updates w =
     (case Supabase_updateAccessPoint ident updates w of (supabaseResult, w1) \<Rightarrow>
        if \<not> success supabaseResult then (supabaseResult, w1)
        else (case data supabaseResult of
                None \<Rightarrow> (supabaseResult, w1)
              | Some fullAccessPoint \<Rightarrow>
                  (case Pinecone_updateAccessPoint fullAccessPoint w1 of
                     (pineconeResult, w2) \<Rightarrow> (supabaseResult, w2))))"

text \<open>
  \<open>Promise.allSettled\<close> over the two calls: the array is built left to right, so the
  request to the store is issued first, and neither promise rejects. The requests go to
  different backends and complete in either order.
\<close>

definition DataSync_deleteAccessPoint :: "jsstring \<Rightarrow> world \<Rightarrow> unit APIResponse \<times> world" where
  "DataSync_deleteAccessPoint ident w =
     (case Supabase_deleteAccessPoint ident w of (supabaseResult, w1) \<Rightarrow>
      case Pinecone_deleteAccessPoint ident w1 of (pineconeResult, w2) \<Rightarrow>
        (let supabaseSuccess = success supabaseResult;
             pineconeSuccess = success pineconeResult
         in if \<not> supabaseSuccess \<and> \<not> pineconeSuccess
            then (failure (js ''Failed to delete from both databases''), w2)
            else (ok_void, w2)))"

text \<open>The loop \<open>for (const id of ids)\<close> of \<open>searchAccessPoints\<close>.\<close>

fun fetch_each :: "jsstring list \<Rightarrow> jsobj list \<Rightarrow> world \<Rightarrow> jsobj list \<times> world" where
  "fetch_each [] accessPoints w = (accessPoints, w)"
| "fetch_each (ident # ids) accessPoints w =
     (case Supabase_getAccessPoint ident w of (apResult, w') \<Rightarrow>
        (case data apResult of
           Some d \<Rightarrow>
             if success apResult then fetch_each ids (accessPoints @ [d]) w'
             else fetch_each ids accessPoints w'
         | None \<Rightarrow> fetch_each ids accessPoints w'))"

definition DataSync_searchAccessPoints ::
  "jsstring \<Rightarrow> nat \<Rightarrow> world \<Rightarrow> jsobj list APIResponse \<times> world" where
  "DataSync_searchAccessPoints query topK w =
     (case Pinecone_searchSimilar query topK w of (pineconeResult, w1) \<Rightarrow>
        if \<not> success pineconeResult then Supabase_searchAccessPoints query w1
        else (case data pineconeResult of
                None \<Rightarrow> (failure (js ''Failed to search access points: '' @
                           js ''Cannot read properties of undefined (reading 'map')''), w1)
              | Some matches \<Rightarrow>
                  (case fetch_each (map match_id matches) [] w1 of
                     (accessPoints, w2) \<Rightarrow> (ok accessPoints, w2))))"

definition DataSync_bulkSyncAccessPoints ::
  "jsobj list \<Rightarrow> world \<Rightarrow> unit APIResponse \<times> world" where
  "DataSync_bulkSyncAccessPoints accessPoints w =
     (case Supabase_bulkInsertAccessPoints accessPoints w of (supabaseResult, w1) \<Rightarrow>
        if \<not> success supabaseResult
        then (failure (js ''Failed to bulk sync to Supabase: '' @
                (case error supabaseResult of Some m \<Rightarrow> m | None \<Rightarrow> js ''undefined'')), w1)
        else (case Pinecone_bulkUpsertAccessPoints accessPoints w1 of (pineconeResult, w2) \<Rightarrow>
          if \<not> success pineconeResult then
            (case Pinecone_bulkUpsertAccessPoints accessPoints w2 of (retryResult, w3) \<Rightarrow>
               if \<not> success retryResult
               then (failure (js ''Failed to sync to Pinecone after retry. Supabase sync was successful.''), w3)
               else (ok_void, w3))
          else (ok_void, w2)))"

section \<open>Inputs used in the examples\<close>

text \<open>The property names of the interface \<open>AccessPoint\<close>.\<close>

definition schema_fields :: "jsstring list" where
  "schema_fields =
     [js ''id'', js ''subnetID'', js ''subnetName'', js ''description'', js ''input'',
      js ''output'', js ''inputType'', js ''outputType'', js ''capabilities'', js ''tags'',
      js ''promptExample'', js ''fileUpload'', js ''fileDownload'', js ''subnetURL'',
      js ''createdAt'', js ''updatedAt'']"

definition demo :: AccessPoint where
  "demo =
     \<lparr>ap_id = js ''x1'', subnetID = js ''1'', subnetName = js ''demo'',
      description = js ''test endpoint'', ap_input = [], ap_output = [],
      inputType = Text, outputType = Json, capabilities = [js ''create-pod''],
      tags = [js ''demo''], promptExample = [], fileUpload = False, fileDownload = False,
      subnetURL = []\<rparr>"

definition empty_world :: world where
  "empty_world =
     \<lparr>rows = Map.empty, vectors = Map.empty, faults = [], requests = [],
      now = js ''2024-01-01T00:00:00.000Z'', openai_api_key = None,
      search_rpc = (\<lambda>t q. []), nearest = (\<lambda>ix v k. [])\<rparr>"

definition unavailable :: backend_error where
  "unavailable = BackendError (js ''503'') (js ''fetch failed'')"

text \<open>The text that \<open>generateEmbedding\<close> builds for \<open>demo\<close>.\<close>

definition demo_text :: jsstring where
  "demo_text =
     js ''ID: x1'' @ newline @
     js ''Subnet: demo (1)'' @ newline @
     js ''Description: test endpoint'' @ newline @
     js ''Input:  (text)'' @ newline @
     js ''Output:  (json)'' @ newline @
     js ''Capabilities: create-pod'' @ newline @
     js ''Tags: demo''"

text \<open>
  Empty backends in which the first request is rejected; the second is; the second and
  the third are; the first is served and the next \<open>n\<close> are rejected.
\<close>

definition store_down_world :: world where
  "store_down_world = empty_world\<lparr>faults := [Some unavailable]\<rparr>"

definition rollback_world :: world where
  "rollback_world = empty_world\<lparr>faults := [None, Some unavailable]\<rparr>"

definition orphan_world :: world where
  "orphan_world = empty_world\<lparr>faults := [None, Some unavailable, Some unavailable]\<rparr>"

text \<open>A world that holds a row and an index entry for \<open>x1\<close>.\<close>

definition stocked_row :: jsobj where
  "stocked_row = json_body (with_timestamps (now empty_world) (toSnakeCase (obj_of demo)))"

definition stocked_world :: world where
  "stocked_world =
     empty_world
       \<lparr>rows := [js ''x1'' \<mapsto> stocked_row],
        vectors := [js ''x1'' \<mapsto> vectorData (obj_of demo) (hash_vector demo_text)]\<rparr>"

text \<open>
  The same world with an index that ranks a stale id \<open>gone\<close> before \<open>x1\<close> and a search
  procedure that finds the row of \<open>x1\<close>; then the same with the first request rejected.
\<close>

definition search_world :: world where
  "search_world =
     stocked_world
       \<lparr>search_rpc := (\<lambda>t q. case t (js ''x1'') of None \<Rightarrow> [] | Some row \<Rightarrow> [row]),
        nearest := (\<lambda>ix v k.
          take k [\<lparr>match_id = js ''gone'', match_score = 1\<rparr>,
                  \<lparr>match_id = js ''x1'', match_score = 0\<rparr>])\<rparr>"

definition index_down_world :: world where
  "index_down_world = search_world\<lparr>faults := [Some unavailable]\<rparr>"

text \<open>
  The same world when the first request is served and the second rejected, and a partial
  update for \<open>x1\<close>.
\<close>

definition stale_index_world :: world where
  "stale_index_world = stocked_world\<lparr>faults := [None, Some unavailable]\<rparr>"

definition new_description :: jsobj where
  "new_description = [(js ''description'', JStr (js ''new endpoint''))]"

text \<open>The row of \<open>x1\<close> once that update is stored.\<close>

definition merged_row :: jsobj where
  "merged_row =
     [(js ''id'', JStr (js ''x1'')),
      (js ''subnet_id'', JStr (js ''1'')),
      (js ''subnet_name'', JStr (js ''demo'')),
      (js ''description'', JStr (js ''new endpoint'')),
      (js ''input'', JStr []),
      (js ''output'', JStr []),
      (js ''input_type'', JStr (js ''text'')),
      (js ''output_type'', JStr (js ''json'')),
      (js ''capabilities'', JArr [js ''create-pod'']),
      (js ''tags'', JArr [js ''demo'']),
      (js ''prompt_example'', JStr []),
      (js ''file_upload'', JBool False),
      (js ''file_download'', JBool False),
      (js ''subnet_url'', JStr []),
      (js ''created_at'', JStr (now empty_world)),
      (js ''updated_at'', JStr (now empty_world))]"

section \<open>Requests and their outcomes\<close>

lemma issue_eq: "issue req w = (pending w 0, advance req w)"
  by (cases "faults w") (simp_all add: issue_def pending_def advance_def)

lemma pending_advance [simp]: "pending (advance req w) n = pending w (Suc n)"
  by (cases "faults w") (simp_all add: pending_def advance_def)

lemma advance_fields [simp]:
  "rows (advance req w) = rows w"
  "vectors (advance req w) = vectors w"
  "requests (advance req w) = requests w @ [req]"
  "faults (advance req w) = tl (faults w)"
  "now (advance req w) = now w"
  "openai_api_key (advance req w) = openai_api_key w"
  "search_rpc (advance req w) = search_rpc w"
  "nearest (advance req w) = nearest w"
  by (simp_all add: advance_def)

lemma pending_rows_update [simp]: "pending (w\<lparr>rows := t\<rparr>) n = pending w n"
  by (simp add: pending_def)

lemma pending_vectors_update [simp]: "pending (w\<lparr>vectors := ix\<rparr>) n = pending w n"
  by (simp add: pending_def)

lemma pending_same_faults: "faults w' = faults w \<Longrightarrow> pending w' n = pending w n"
  by (simp add: pending_def)

lemma envelope_success [simp]:
  "success (ok d) = True"
  "success ok_void = True"
  "success (failure m) = False"
  by (simp_all add: ok_def ok_void_def failure_def)

section \<open>Field-name round trip\<close>

lemmas char_defs =
  js_def is_lower_def is_upper_def underscore_def toLowerCase_def toUpperCase_def

text \<open>
  C2. The claim: for every field name of the record schema, the acronym-bearing
  \<open>subnetID\<close> and \<open>subnetURL\<close> included, translating to snake case and back gives the
  name again. The code loses the acronym: of the names of the interface exactly
  \<open>subnetID\<close> and \<open>subnetURL\<close> do not come back, they return as \<open>subnetId\<close> and
  \<open>subnetUrl\<close>, also when a whole object is translated.
\<close>

theorem roundtrip_loses_acronyms:
  "filter (\<lambda>k. camelKey (snakeKey k) \<noteq> k) schema_fields = [js ''subnetID'', js ''subnetURL'']
   \<and> camelKey (snakeKey (js ''subnetID'')) = js ''subnetId''
   \<and> camelKey (snakeKey (js ''subnetURL'')) = js ''subnetUrl''
   \<and> toCamelCase (toSnakeCase [(js ''subnetID'', JStr (js ''3''))])
       = [(js ''subnetId'', JStr (js ''3''))]"
  by (simp add: schema_fields_def snakeKey_def toSnakeCase_def toCamelCase_def char_defs)

section \<open>Deleting\<close>

lemma Supabase_delete_eq:
  "Supabase_deleteAccessPoint ident w =
     (case pending w 0 of
        Some e \<Rightarrow>
          (failure (js ''Failed to delete access point: '' @ err_message e),
           advance (StoreDelete ident) w)
      | None \<Rightarrow> (ok_void, (advance (StoreDelete ident) w)\<lparr>rows := (rows w)(ident := None)\<rparr>))"
  by (simp add: Supabase_deleteAccessPoint_def sb_delete_def issue_eq split: option.splits)

lemma Pinecone_delete_eq:
  "Pinecone_deleteAccessPoint ident w =
     (case pending w 0 of
        Some e \<Rightarrow>
          (failure (js ''Failed to delete from Pinecone: '' @ err_message e),
           advance (IndexDelete ident) w)
      | None \<Rightarrow>
          (ok_void, (advance (IndexDelete ident) w)\<lparr>vectors := (vectors w)(ident := None)\<rparr>))"
  by (simp add: Pinecone_deleteAccessPoint_def px_deleteOne_def issue_eq split: option.splits)

text \<open>
  C7. The claim: \<open>delete(id)\<close> of the record store adapter fails with a not-found result
  when no row has that id, so the second of two deletions of an id fails.
  \<open>DatabaseOperations.deleteAccessPoint\<close> does so; \<open>SupabaseOperations.deleteAccessPoint\<close>, the
  adapter the manager uses, reports success on a table that has no such row, and
  reports success twice in a row on a table that has it.
\<close>

theorem Supabase_delete_absent_succeeds:
  "fst (Supabase_deleteAccessPoint (js ''x1'') empty_world) = ok_void
   \<and> fst (Database_deleteAccessPoint (js ''x1'') empty_world) = failure (not_found (js ''x1''))
   \<and> fst (Supabase_deleteAccessPoint (js ''x1'') stocked_world) = ok_void
   \<and> fst (Supabase_deleteAccessPoint (js ''x1'')
            (snd (Supabase_deleteAccessPoint (js ''x1'') stocked_world))) = ok_void"
  by (simp add: Supabase_deleteAccessPoint_def Database_deleteAccessPoint_def sb_delete_def
      pg_connect_def pg_delete_def issue_def empty_world_def stocked_world_def)

text \<open>
  C3. \<open>DataSyncManager.deleteAccessPoint\<close> issues the deletion to the store and the
  deletion to the index whatever the outcome of either; its result is a success exactly
  when at least one of the two is served, that is, when at least one of the two adapter
  calls succeeds, and a failure exactly when both fail.
\<close>

theorem delete_succeeds_iff_either:
  "success (fst (DataSync_deleteAccessPoint ident w)) = (pending w 0 = None \<or> pending w 1 = None)
   \<and> requests (snd (DataSync_deleteAccessPoint ident w))
       = requests w @ [StoreDelete ident, IndexDelete ident]
   \<and> success (fst (DataSync_deleteAccessPoint ident w))
       = (success (fst (Supabase_deleteAccessPoint ident w))
          \<or> success (fst (Pinecone_deleteAccessPoint ident
                            (snd (Supabase_deleteAccessPoint ident w)))))"
  by (simp add: DataSync_deleteAccessPoint_def Supabase_delete_eq Pinecone_delete_eq
      split: option.splits)

text \<open>
  C10. For an id that neither backend holds, \<open>DataSyncManager.deleteAccessPoint\<close> reports
  success whenever the deletion in the index is served; the store adapter and the index
  adapter each report success for such an id when their request is served; and the result
  is the one obtained, under the same outcomes of the requests, in any other world, so
  also in one that holds the id.
\<close>

theorem delete_absent_id:
  assumes "rows w ident = None" and "vectors w ident = None" and "faults w' = faults w"
  shows "(pending w 1 = None \<longrightarrow> fst (DataSync_deleteAccessPoint ident w) = ok_void)
    \<and> (pending w 0 = None \<longrightarrow> fst (Supabase_deleteAccessPoint ident w) = ok_void)
    \<and> (pending w 0 = None \<longrightarrow> fst (Pinecone_deleteAccessPoint ident w) = ok_void)
    \<and> fst (DataSync_deleteAccessPoint ident w') = fst (DataSync_deleteAccessPoint ident w)"
  by (simp add: DataSync_deleteAccessPoint_def Supabase_delete_eq Pinecone_delete_eq
      pending_same_faults [OF assms(3)] split: option.splits)

theorem delete_absent_id_witness:
  "rows empty_world (js ''x1'') = None \<and> vectors empty_world (js ''x1'') = None
   \<and> rows stocked_world (js ''x1'') \<noteq> None \<and> vectors stocked_world (js ''x1'') \<noteq> None
   \<and> fst (DataSync_deleteAccessPoint (js ''x1'') empty_world) = ok_void
   \<and> fst (Supabase_deleteAccessPoint (js ''x1'') empty_world) = ok_void
   \<and> fst (Pinecone_deleteAccessPoint (js ''x1'') empty_world) = ok_void
   \<and> fst (DataSync_deleteAccessPoint (js ''x1'') stocked_world) = ok_void"
  using delete_absent_id [of empty_world "js ''x1''" stocked_world]
  by (simp add: empty_world_def stocked_world_def pending_def)

section \<open>The fallback embedding\<close>

subsection \<open>The rolling hash\<close>

lemma to_int32_mod: "to_int32 x mod 2 ^ 32 = x mod 2 ^ 32"
  by (simp add: to_int32_def mod_simps)

lemma to_int32_cong: "x mod 2 ^ 32 = y mod 2 ^ 32 \<Longrightarrow> to_int32 x = to_int32 y"
proof -
  assume "x mod 2 ^ 32 = y mod 2 ^ 32"
  then have "(x + 2 ^ 31) mod 2 ^ 32 = (y + 2 ^ 31) mod 2 ^ 32"
    by (rule mod_add_cong) (rule refl)
  then show ?thesis
    by (simp only: to_int32_def)
qed

lemma hash_step_eq: "hash_step hash char = to_int32 (hash * 31 + int char)"
proof -
  have "(to_int32 hash * 32) mod 2 ^ 32 = (hash * 32) mod 2 ^ 32"
    by (rule mod_mult_cong) (simp_all only: to_int32_mod)
  then have "to_int32 (to_int32 hash * 32) mod 2 ^ 32 = (hash * 32) mod 2 ^ 32"
    by (simp only: to_int32_mod)
  then have "(to_int32 (to_int32 hash * 32) - hash) mod 2 ^ 32 = (hash * 32 - hash) mod 2 ^ 32"
    by (rule mod_diff_cong) (rule refl)
  then have "(to_int32 (to_int32 hash * 32) - hash + int char) mod 2 ^ 32
      = (hash * 32 - hash + int char) mod 2 ^ 32"
    by (rule mod_add_cong) (rule refl)
  then have "to_int32 (to_int32 (to_int32 hash * 32) - hash + int char)
      = to_int32 (hash * 32 - hash + int char)"
    by (rule to_int32_cong)
  moreover have "hash * 32 - hash + int char = hash * 31 + int char"
    by simp
  moreover have "(2::int) ^ (5 mod 32) = 32"
    by simp
  ultimately show ?thesis
    by (simp only: hash_step_def shift_left_def)
qed

subsection \<open>The vector\<close>

lemma length_embed_loop [simp]: "length (embed_loop i cs h v) = length v"
  by (induction cs arbitrary: i h v) simp_all

lemma length_hash_vector [simp]: "length (hash_vector s) = EMBEDDING_DIMENSION"
  by (simp add: hash_vector_def)

lemma embed_loop_nth_before:
  "k < i \<Longrightarrow> i + length cs \<le> EMBEDDING_DIMENSION \<Longrightarrow> embed_loop i cs h v ! k = v ! k"
  by (induction cs arbitrary: i h v) simp_all

lemma embed_loop_nth:
  "j < length cs \<Longrightarrow> i + length cs \<le> EMBEDDING_DIMENSION \<Longrightarrow> length v = EMBEDDING_DIMENSION \<Longrightarrow>
   embed_loop i cs h v ! (i + j) = slot_value (foldl hash_step h (take (Suc j) cs))"
proof (induction cs arbitrary: i j h v)
  case Nil
  then show ?case by simp
next
  case (Cons c cs)
  show ?case
  proof (cases j)
    case 0
    with Cons.prems show ?thesis
      by (simp add: embed_loop_nth_before)
  next
    case (Suc j')
    with Cons.prems have "embed_loop (i + 1) cs (hash_step h c)
        (v[i mod EMBEDDING_DIMENSION := slot_value (hash_step h c)]) ! ((i + 1) + j')
      = slot_value (foldl hash_step (hash_step h c) (take (Suc j') cs))"
      by (intro Cons.IH) simp_all
    with Suc show ?thesis by simp
  qed
qed

lemma hash_vector_nth:
  "i < length s \<Longrightarrow> length s \<le> EMBEDDING_DIMENSION \<Longrightarrow>
   hash_vector s ! i = slot_value (foldl hash_step 0 (take (Suc i) s))"
  using embed_loop_nth [of i s 0 "replicate EMBEDDING_DIMENSION 0" 0]
  by (simp add: hash_vector_def)

lemma slot_value_range: "- 3 < slot_value hash \<and> slot_value hash < 1"
proof -
  have "\<bar>js_rem hash 2000\<bar> < 2000"
    by (simp add: js_rem_def abs_mult abs_sgn_eq)
  then have "- 2000 < js_rem hash 2000" and "js_rem hash 2000 < 2000"
    by arith+
  then have "real_of_int (- 2000) < real_of_int (js_rem hash 2000)"
    and "real_of_int (js_rem hash 2000) < real_of_int 2000"
    by (simp_all only: of_int_less_iff)
  then show ?thesis
    by (simp add: slot_value_def)
qed

lemma slot_value_nonneg_hash: "0 \<le> hash \<Longrightarrow> - 1 \<le> slot_value hash"
  by (simp add: slot_value_def js_rem_def sgn_if)

lemma textToEmbed_arrays:
  "get_prop obj (js ''capabilities'') = JArr cs \<Longrightarrow> get_prop obj (js ''tags'') = JArr ts \<Longrightarrow>
   \<exists>s. textToEmbed obj = Inr s"
  by (simp add: textToEmbed_def)

lemma textToEmbed_obj_of: "\<exists>s. textToEmbed (obj_of a) = Inr s"
  by (rule textToEmbed_arrays [of _ "capabilities a" "tags a"])
    (simp_all add: get_prop_def obj_of_def js_def)

lemma textToEmbed_query: "\<exists>s. textToEmbed (queryAccessPoint q) = Inr s"
  by (rule textToEmbed_arrays [of _ "[]" "split_space q"])
    (simp_all add: get_prop_def queryAccessPoint_def js_def)


text \<open>
  C9. The fallback embedding is a function of the record alone and always has
  \<open>D = 1024\<close> components: for every record of the interface and for every query text,
  \<open>generateEmbedding\<close> returns a vector, the same one whatever the environment holds
  for the provider key, of length 1024; and the hash-based vector of any text, the empty
  one included, has length 1024.
\<close>

theorem embedding_deterministic_dimension:
  "(\<exists>v. generateEmbedding key (obj_of a) = Inr v \<and> generateEmbedding key' (obj_of a) = Inr v \<and> length v = 1024)
   \<and> (\<exists>v. generateEmbedding key (queryAccessPoint query) = Inr v \<and> generateEmbedding key' (queryAccessPoint query) = Inr v \<and> length v = 1024)
   \<and> length (hash_vector s) = 1024 \<and> EMBEDDING_DIMENSION = 1024"
proof -
  obtain s1 where s1: "textToEmbed (obj_of a) = Inr s1"
    using textToEmbed_obj_of by blast
  obtain s2 where s2: "textToEmbed (queryAccessPoint query) = Inr s2"
    using textToEmbed_query by blast
  show ?thesis
    by (simp add: generateEmbedding_def s1 s2 EMBEDDING_DIMENSION_def)
qed


subsection \<open>A slot below \<open>-1\<close>\<close>

lemma textToEmbed_demo: "textToEmbed (obj_of demo) = Inr demo_text"
  by (simp add: textToEmbed_def get_prop_def obj_of_def demo_def demo_text_def js_def newline_def)


text \<open>
  C5. The claim: the fallback embedding follows the reference definition, which writes
  for each character position a value in \<open>[-1, 1)\<close>. The rolling hash is the one of the
  reference definition (\<open>hash_step_eq\<close>) and position \<open>i\<close> goes to slot \<open>i mod D\<close>
  (\<open>hash_vector_nth\<close>), but the remainder operator truncates, so a negative hash gives a
  value below \<open>-1\<close> (\<open>slot_value_range\<close>). For the record \<open>demo\<close> the hash after six
  characters is negative and slot 5 of the vector holds \<open>-2.446\<close>.
\<close>

theorem embedding_slot_below_minus_one:
  "generateEmbedding None (obj_of demo) = Inr (hash_vector demo_text)
   \<and> foldl hash_step 0 (take 6 demo_text) = - 2140477446
   \<and> hash_vector demo_text ! 5 = - 2446 / 1000
   \<and> hash_vector demo_text ! 5 < - 1"
proof -
  have t: "take 6 demo_text = [73, 68, 58, 32, 120, 49]"
    by (simp add: demo_text_def js_def)
  have len: "length demo_text = 117"
    by (simp add: demo_text_def js_def newline_def)
  have h: "foldl hash_step 0 (take 6 demo_text) = - 2140477446"
    by (simp add: t hash_step_def shift_left_def to_int32_def)
  have "hash_vector demo_text ! 5 = slot_value (foldl hash_step 0 (take (Suc 5) demo_text))"
    by (rule hash_vector_nth) (simp_all add: len EMBEDDING_DIMENSION_def)
  then have v: "hash_vector demo_text ! 5 = - 2446 / 1000"
    by (simp add: h slot_value_def js_rem_def)
  show ?thesis
    by (simp add: generateEmbedding_def textToEmbed_demo h v)
qed

section \<open>Creating\<close>

lemma toSnakeCase_obj_of:
  "toSnakeCase (obj_of a) =
     [(js ''id'', JStr (ap_id a)),
      (js ''subnet_id'', JStr (subnetID a)),
      (js ''subnet_name'', JStr (subnetName a)),
      (js ''description'', JStr (description a)),
      (js ''input'', JStr (ap_input a)),
      (js ''output'', JStr (ap_output a)),
      (js ''input_type'', JStr (io_name (inputType a))),
      (js ''output_type'', JStr (io_name (outputType a))),
      (js ''capabilities'', JArr (capabilities a)),
      (js ''tags'', JArr (tags a)),
      (js ''prompt_example'', JStr (promptExample a)),
      (js ''file_upload'', JBool (fileUpload a)),
      (js ''file_download'', JBool (fileDownload a)),
      (js ''subnet_url'', JStr (subnetURL a))]"
  by (simp add: toSnakeCase_def obj_of_def snakeKey_def char_defs)

lemma row_id_obj_of:
  "row_id (json_body (with_timestamps t (toSnakeCase (obj_of a)))) = Some (ap_id a)"
  by (simp add: toSnakeCase_obj_of with_timestamps_def json_body_def row_id_def get_prop_def js_def)

lemma id_obj_of: "to_str (get_prop (obj_of a) (js ''id'')) = ap_id a"
  by (simp add: obj_of_def get_prop_def)

lemma Supabase_create_eq:
  assumes "row = json_body (with_timestamps (now w) (toSnakeCase accessPoint))"
    and "row_id row = Some k"
  shows "Supabase_createAccessPoint accessPoint w =
     (case pending w 0 of
        Some e \<Rightarrow>
          (failure (js ''Failed to create access point: '' @ err_message e),
           advance (StoreInsert row) w)
      | None \<Rightarrow>
          if rows w k \<noteq> None
          then (failure (js ''Failed to create access point: '' @ err_message unique_violation),
                advance (StoreInsert row) w)
          else (ok (toCamelCase row), (advance (StoreInsert row) w)\<lparr>rows := (rows w)(k \<mapsto> row)\<rparr>))"
  using assms
  by (simp add: Supabase_createAccessPoint_def sb_insert_def issue_eq Let_def split: option.splits)

lemma Supabase_get_eq:
  "Supabase_getAccessPoint ident w =
     (case pending w 0 of
        Some e \<Rightarrow>
          (failure (if err_code e = js ''PGRST116'' then not_found ident
                    else js ''Failed to get access point: '' @ err_message e),
           advance (StoreSelect ident) w)
      | None \<Rightarrow>
          (case rows w ident of
             None \<Rightarrow> (failure (not_found ident), advance (StoreSelect ident) w)
           | Some row \<Rightarrow> (ok (toCamelCase row), advance (StoreSelect ident) w)))"
  by (simp add: Supabase_getAccessPoint_def sb_select_def issue_eq no_rows_def split: option.splits)

lemma Pinecone_upsert_rows [simp]: "rows (snd (Pinecone_upsertAccessPoint accessPoint w)) = rows w"
  by (simp add: Pinecone_upsertAccessPoint_def px_upsert_def issue_eq split: sum.splits option.splits)


lemma generateEmbedding_demo: "generateEmbedding key (obj_of demo) = Inr (hash_vector demo_text)"
  by (simp add: generateEmbedding_def textToEmbed_demo)

lemma Pinecone_upsert_eq:
  assumes "generateEmbedding (openai_api_key w) accessPoint = Inr v"
    and "get_prop accessPoint (js ''id'') = JStr k"
  shows "Pinecone_upsertAccessPoint accessPoint w =
     (case pending w 0 of
        Some e \<Rightarrow>
          (failure (js ''Failed to upsert to Pinecone: '' @ err_message e),
           advance (IndexUpsert [vectorData accessPoint v]) w)
      | None \<Rightarrow>
          (ok_void,
           (advance (IndexUpsert [vectorData accessPoint v]) w)
             \<lparr>vectors := (vectors w)(k \<mapsto> vectorData accessPoint v)\<rparr>))"
  using assms
  by (simp add: Pinecone_upsertAccessPoint_def px_upsert_def issue_eq vector_key_def
      put_vector_def vectorData_def split: option.splits)

lemma id_demo: "get_prop (obj_of demo) (js ''id'') = JStr (js ''x1'')"
  by (simp add: obj_of_def get_prop_def demo_def)

lemma ap_id_demo: "ap_id demo = js ''x1''"
  by (simp add: demo_def)

lemma create_typed:
  "Supabase_createAccessPoint (obj_of a) w =
     (case pending w 0 of
        Some e \<Rightarrow>
          (failure (js ''Failed to create access point: '' @ err_message e),
           advance (StoreInsert (json_body (with_timestamps (now w) (toSnakeCase (obj_of a))))) w)
      | None \<Rightarrow>
          if rows w (ap_id a) \<noteq> None
          then (failure (js ''Failed to create access point: '' @ err_message unique_violation),
                advance (StoreInsert (json_body (with_timestamps (now w) (toSnakeCase (obj_of a))))) w)
          else (ok (toCamelCase (json_body (with_timestamps (now w) (toSnakeCase (obj_of a))))),
                (advance (StoreInsert (json_body (with_timestamps (now w) (toSnakeCase (obj_of a))))) w)
                  \<lparr>rows := (rows w)(ap_id a \<mapsto> json_body (with_timestamps (now w) (toSnakeCase (obj_of a))))\<rparr>))"
  by (rule Supabase_create_eq [OF refl row_id_obj_of])

lemmas create_demo = create_typed [of demo]
lemmas upsert_demo = Pinecone_upsert_eq [OF generateEmbedding_demo id_demo]

lemma pending_faults_update [simp]:
  "pending (w\<lparr>faults := fs\<rparr>) n = (if n < length fs then fs ! n else None)"
  by (simp add: pending_def)

lemma pending_empty_world [simp]: "pending empty_world n = None"
  by (simp add: pending_def empty_world_def)

lemma empty_world_fields [simp]:
  "rows empty_world = Map.empty"
  "vectors empty_world = Map.empty"
  "faults empty_world = []"
  "requests empty_world = []"
  "openai_api_key empty_world = None"
  by (simp_all add: empty_world_def)


text \<open>
  C1. The claim: when the write to the store fails, \<open>createAccessPoint\<close> returns that
  failure and leaves the index alone; when the store write succeeds and the index upsert
  fails, it deletes the row just created and returns a failure, so that a later
  \<open>get(id)\<close> on the store finds nothing. The manager does not look at the result of the
  compensating delete: in \<open>orphan_world\<close> the store creates the row, the index rejects
  the upsert and the store rejects the delete; the manager reports the failure and the
  row is still there for a later \<open>get\<close>.
\<close>

theorem create_rollback_counterexample:
  "success (fst (Supabase_createAccessPoint (obj_of demo) orphan_world))
  \<and> \<not> success (fst (Pinecone_upsertAccessPoint (obj_of demo) (snd (Supabase_createAccessPoint (obj_of demo) orphan_world))))
  \<and> \<not> success (fst (DataSync_createAccessPoint (obj_of demo) orphan_world))
  \<and> success (fst (Supabase_getAccessPoint (js ''x1'') (snd (DataSync_createAccessPoint (obj_of demo) orphan_world))))"
  by (simp add: DataSync_createAccessPoint_def create_demo upsert_demo Supabase_delete_eq Supabase_get_eq
      id_obj_of ap_id_demo orphan_world_def)


text \<open>
  C1, as the code has it. For a record of the interface: when the write to the store
  fails, the manager returns that failure and neither the index nor the list of requests
  to the index changes. When it succeeds the row is new and stored under the id of the
  record. When the index upsert then fails, the manager reports a failure and issues one
  delete for that id to the store, without looking at its outcome; when the store serves
  that delete the row is gone, and a \<open>get\<close> that the store serves next reports that the
  id is not found.
\<close>

theorem create_compensation:
  assumes create: "Supabase_createAccessPoint (obj_of a) w = (r1, w1)"
    and upsert: "Pinecone_upsertAccessPoint (obj_of a) w1 = (r2, w2)"
    and whole: "DataSync_createAccessPoint (obj_of a) w = (r, w')"
  shows "(\<not> success r1 \<longrightarrow>
            r = r1 \<and> w' = w1 \<and> vectors w' = vectors w
            \<and> filter is_index_request (requests w') = filter is_index_request (requests w))
       \<and> (success r1 \<longrightarrow> rows w (ap_id a) = None \<and> rows w1 (ap_id a) \<noteq> None)
       \<and> (success r1 \<and> \<not> success r2 \<longrightarrow>
            \<not> success r
            \<and> requests w' = requests w2 @ [StoreDelete (ap_id a)]
            \<and> (pending w2 0 = None \<longrightarrow>
                  rows w' (ap_id a) = None
                  \<and> (pending w' 0 = None \<longrightarrow>
                        fst (Supabase_getAccessPoint (ap_id a) w') = failure (not_found (ap_id a)))))"
proof -
  define row where "row = json_body (with_timestamps (now w) (toSnakeCase (obj_of a)))"
  have rid: "row_id row = Some (ap_id a)"
    by (simp add: row_def row_id_obj_of)
  note c = Supabase_create_eq [OF row_def rid]
  have fail: "\<not> success r1 \<longrightarrow>
            r = r1 \<and> w' = w1 \<and> vectors w' = vectors w
            \<and> filter is_index_request (requests w') = filter is_index_request (requests w)"
    using create whole
    by (auto simp add: DataSync_createAccessPoint_def c split: option.splits if_splits)
  have made: "success r1 \<longrightarrow> rows w (ap_id a) = None \<and> rows w1 (ap_id a) \<noteq> None"
    using create by (auto simp add: c split: option.splits if_splits)
  have undo: "success r1 \<and> \<not> success r2 \<longrightarrow>
            \<not> success r
            \<and> requests w' = requests w2 @ [StoreDelete (ap_id a)]
            \<and> (pending w2 0 = None \<longrightarrow>
                  rows w' (ap_id a) = None
                  \<and> (pending w' 0 = None \<longrightarrow>
                        fst (Supabase_getAccessPoint (ap_id a) w') = failure (not_found (ap_id a))))"
    using whole create upsert
    by (auto simp add: DataSync_createAccessPoint_def id_obj_of Supabase_delete_eq Supabase_get_eq
        split: option.splits)
  from fail made undo show ?thesis by blast
qed

theorem create_compensation_witness:
  "\<not> success (fst (DataSync_createAccessPoint (obj_of demo) store_down_world))
  \<and> vectors (snd (DataSync_createAccessPoint (obj_of demo) store_down_world)) = vectors store_down_world
  \<and> \<not> success (fst (DataSync_createAccessPoint (obj_of demo) rollback_world))
  \<and> rows (snd (DataSync_createAccessPoint (obj_of demo) rollback_world)) (js ''x1'') = None
  \<and> fst (Supabase_getAccessPoint (js ''x1'') (snd (DataSync_createAccessPoint (obj_of demo) rollback_world)))
      = failure (not_found (js ''x1''))"
proof -
  let ?d = "obj_of demo"
  have s1: "\<not> success (fst (Supabase_createAccessPoint ?d store_down_world))"
    by (simp add: create_demo store_down_world_def)
  have s2: "success (fst (Supabase_createAccessPoint ?d rollback_world))"
    by (simp add: create_demo rollback_world_def ap_id_demo)
  have s3: "\<not> success (fst (Pinecone_upsertAccessPoint ?d (snd (Supabase_createAccessPoint ?d rollback_world))))"
    by (simp add: create_demo upsert_demo rollback_world_def ap_id_demo)
  have s4: "pending (snd (Pinecone_upsertAccessPoint ?d (snd (Supabase_createAccessPoint ?d rollback_world)))) 0 = None"
    by (simp add: create_demo upsert_demo rollback_world_def ap_id_demo)
  have s5: "pending (snd (DataSync_createAccessPoint ?d rollback_world)) 0 = None"
    by (simp add: DataSync_createAccessPoint_def create_demo upsert_demo Supabase_delete_eq
        id_obj_of rollback_world_def ap_id_demo)
  show ?thesis
    using create_compensation [of demo store_down_world "fst (Supabase_createAccessPoint ?d store_down_world)"
          "snd (Supabase_createAccessPoint ?d store_down_world)"
          "fst (Pinecone_upsertAccessPoint ?d (snd (Supabase_createAccessPoint ?d store_down_world)))"
          "snd (Pinecone_upsertAccessPoint ?d (snd (Supabase_createAccessPoint ?d store_down_world)))"
          "fst (DataSync_createAccessPoint ?d store_down_world)"
          "snd (DataSync_createAccessPoint ?d store_down_world)"]
      create_compensation [of demo rollback_world "fst (Supabase_createAccessPoint ?d rollback_world)"
          "snd (Supabase_createAccessPoint ?d rollback_world)"
          "fst (Pinecone_upsertAccessPoint ?d (snd (Supabase_createAccessPoint ?d rollback_world)))"
          "snd (Pinecone_upsertAccessPoint ?d (snd (Supabase_createAccessPoint ?d rollback_world)))"
          "fst (DataSync_createAccessPoint ?d rollback_world)"
          "snd (DataSync_createAccessPoint ?d rollback_world)"]
      s1 s2 s3 s4 s5
    by (auto simp add: ap_id_demo)
qed

section \<open>Updating\<close>

lemma Supabase_update_eq:
  assumes "upd = json_body (AList.update (js ''updated_at'') (JStr (now w)) (toSnakeCase updates))"
  shows "Supabase_updateAccessPoint ident updates w =
     (case pending w 0 of
        Some e \<Rightarrow>
          (failure (js ''Failed to update access point: '' @ err_message e),
           advance (StoreUpdate ident upd) w)
      | None \<Rightarrow>
          (case rows w ident of
             None \<Rightarrow>
               (failure (js ''Failed to update access point: '' @ err_message no_rows),
                advance (StoreUpdate ident upd) w)
           | Some old \<Rightarrow>
               (case row_id (assign old upd) of
                  None \<Rightarrow>
                    (failure (js ''Failed to update access point: '' @ err_message not_null_violation),
                     advance (StoreUpdate ident upd) w)
                | Some k \<Rightarrow>
                    if k \<noteq> ident \<and> rows w k \<noteq> None
                    then (failure (js ''Failed to update access point: '' @ err_message unique_violation),
                          advance (StoreUpdate ident upd) w)
                    else (ok (toCamelCase (assign old upd)),
                          (advance (StoreUpdate ident upd) w)
                            \<lparr>rows := ((rows w)(ident := None))(k \<mapsto> assign old upd)\<rparr>))))"
  using assms
  by (simp add: Supabase_updateAccessPoint_def sb_update_def issue_eq Let_def split: option.splits)

lemma Pinecone_upsert_requests:
  "generateEmbedding (openai_api_key w) accessPoint = Inr v \<Longrightarrow>
   requests (snd (Pinecone_upsertAccessPoint accessPoint w))
     = requests w @ [IndexUpsert [vectorData accessPoint v]]"
  by (simp add: Pinecone_upsertAccessPoint_def px_upsert_def issue_eq split: option.splits)

lemma ok_data [simp]: "data (ok d) = Some d" "data (failure m) = None"
  by (simp_all add: ok_def failure_def)


lemma stocked_row_eq:
  "stocked_row =
     [(js ''id'', JStr (js ''x1'')),
      (js ''subnet_id'', JStr (js ''1'')),
      (js ''subnet_name'', JStr (js ''demo'')),
      (js ''description'', JStr (js ''test endpoint'')),
      (js ''input'', JStr []),
      (js ''output'', JStr []),
      (js ''input_type'', JStr (js ''text'')),
      (js ''output_type'', JStr (js ''json'')),
      (js ''capabilities'', JArr [js ''create-pod'']),
      (js ''tags'', JArr [js ''demo'']),
      (js ''prompt_example'', JStr []),
      (js ''file_upload'', JBool False),
      (js ''file_download'', JBool False),
      (js ''subnet_url'', JStr []),
      (js ''created_at'', JStr (now empty_world)),
      (js ''updated_at'', JStr (now empty_world))]"
  by (simp add: stocked_row_def toSnakeCase_obj_of with_timestamps_def json_body_def demo_def js_def)

lemma stocked_world_fields [simp]:
  "rows stocked_world = [js ''x1'' \<mapsto> stocked_row]"
  "faults stocked_world = []"
  "requests stocked_world = []"
  "now stocked_world = now empty_world"
  "openai_api_key stocked_world = None"
  by (simp_all add: stocked_world_def)

lemma update_payload:
  "json_body (AList.update (js ''updated_at'') (JStr t) (toSnakeCase new_description))
     = [(js ''description'', JStr (js ''new endpoint'')), (js ''updated_at'', JStr t)]"
  by (simp add: new_description_def toSnakeCase_def snakeKey_def json_body_def char_defs)

lemma assign_stocked:
  "assign stocked_row [(js ''description'', JStr (js ''new endpoint'')), (js ''updated_at'', JStr (now empty_world))]
     = merged_row"
  by (simp add: assign_def stocked_row_eq merged_row_def js_def)

lemma row_id_merged: "row_id merged_row = Some (js ''x1'')"
  by (simp add: row_id_def get_prop_def merged_row_def js_def)

lemma camel_merged_arrays:
  "get_prop (toCamelCase merged_row) (js ''capabilities'') = JArr [js ''create-pod'']"
  "get_prop (toCamelCase merged_row) (js ''tags'') = JArr [js ''demo'']"
  "get_prop (toCamelCase merged_row) (js ''id'') = JStr (js ''x1'')"
  by (simp_all add: toCamelCase_def merged_row_def get_prop_def char_defs)

lemma stale_index_world_fields [simp]:
  "rows stale_index_world = [js ''x1'' \<mapsto> stocked_row]"
  "faults stale_index_world = [None, Some unavailable]"
  "now stale_index_world = now empty_world"
  "openai_api_key stale_index_world = None"
  by (simp_all add: stale_index_world_def)

lemma pending_stale [simp]:
  "pending stale_index_world 0 = None"
  "pending stale_index_world (Suc 0) = Some unavailable"
  by (simp_all add: pending_def)

lemma update_stale:
  "Supabase_updateAccessPoint (js ''x1'') new_description stale_index_world =
     (ok (toCamelCase merged_row),
      (advance (StoreUpdate (js ''x1'')
          [(js ''description'', JStr (js ''new endpoint'')), (js ''updated_at'', JStr (now empty_world))])
        stale_index_world)
        \<lparr>rows := [js ''x1'' \<mapsto> merged_row]\<rparr>)"
  by (simp add: Supabase_update_eq [OF refl] update_payload assign_stocked row_id_merged)

lemma update_empty:
  "\<not> success (fst (Supabase_updateAccessPoint (js ''x1'') new_description empty_world))"
  by (simp add: Supabase_update_eq [OF refl])


text \<open>
  C4. \<open>DataSyncManager.updateAccessPoint\<close> always returns the result of the store. When
  the store update fails, nothing else happens: the store and the index are as before and
  no request goes to the index. When it succeeds, the store holds the old row overlaid
  with the columns of the update, the result carries that merged row (translated to camel
  case), and the manager calls the index upsert with that merged record, not with the
  partial input; the outcome of the upsert changes neither the result nor the stored row.
\<close>

theorem update_asymmetry:
  assumes store: "Supabase_updateAccessPoint ident updates w = (r1, w1)"
    and whole: "DataSync_updateAccessPoint ident updates w = (r, w')"
  shows "r = r1
    \<and> (\<not> success r1 \<longrightarrow>
          w' = w1 \<and> rows w' = rows w \<and> vectors w' = vectors w
          \<and> filter is_index_request (requests w') = filter is_index_request (requests w))
    \<and> (success r1 \<longrightarrow>
          (\<exists>old merged k.
             rows w ident = Some old
             \<and> merged = assign old (json_body (AList.update (js ''updated_at'') (JStr (now w))
                                        (toSnakeCase updates)))
             \<and> row_id merged = Some k \<and> rows w' k = Some merged
             \<and> data r1 = Some (toCamelCase merged)
             \<and> w' = snd (Pinecone_updateAccessPoint (toCamelCase merged) w1)
             \<and> (\<forall>v. generateEmbedding (openai_api_key w) (toCamelCase merged) = Inr v \<longrightarrow>
                   requests w' = requests w1 @ [IndexUpsert [vectorData (toCamelCase merged) v]])))"
proof -
  define upd where
    "upd = json_body (AList.update (js ''updated_at'') (JStr (now w)) (toSnakeCase updates))"
  note u = Supabase_update_eq [OF upd_def]
  have same: "r = r1"
    using store whole
    by (auto simp add: DataSync_updateAccessPoint_def split: option.splits prod.splits if_splits)
  have failed: "\<not> success r1 \<longrightarrow>
          w' = w1 \<and> rows w' = rows w \<and> vectors w' = vectors w
          \<and> filter is_index_request (requests w') = filter is_index_request (requests w)"
    using store whole
    by (auto simp add: DataSync_updateAccessPoint_def u split: option.splits if_splits)
  have after: "w' = snd (Pinecone_upsertAccessPoint full w1)"
    if "success r1" and "data r1 = Some full" for full
    using store whole that
    by (simp add: DataSync_updateAccessPoint_def Pinecone_updateAccessPoint_def split_beta)
  have merged: "success r1 \<longrightarrow>
          (\<exists>old merged k.
             rows w ident = Some old
             \<and> merged = assign old upd
             \<and> row_id merged = Some k \<and> rows w' k = Some merged
             \<and> data r1 = Some (toCamelCase merged)
             \<and> w' = snd (Pinecone_updateAccessPoint (toCamelCase merged) w1)
             \<and> (\<forall>v. generateEmbedding (openai_api_key w) (toCamelCase merged) = Inr v \<longrightarrow>
                   requests w' = requests w1 @ [IndexUpsert [vectorData (toCamelCase merged) v]]))"
  proof
    assume ok1: "success r1"
    with store obtain old k where old: "rows w ident = Some old"
      and k: "row_id (assign old upd) = Some k"
      and r1: "r1 = ok (toCamelCase (assign old upd))"
      and w1: "w1 = (advance (StoreUpdate ident upd) w)
                 \<lparr>rows := ((rows w)(ident := None))(k \<mapsto> assign old upd)\<rparr>"
      by (auto simp add: u split: option.splits if_splits)
    from ok1 r1 have w': "w' = snd (Pinecone_upsertAccessPoint (toCamelCase (assign old upd)) w1)"
      by (intro after) simp_all
    have key: "openai_api_key w1 = openai_api_key w"
      by (simp add: w1)
    have "rows w' k = Some (assign old upd)"
      by (simp add: w' w1)
    moreover have "\<forall>v. generateEmbedding (openai_api_key w) (toCamelCase (assign old upd)) = Inr v \<longrightarrow>
        requests w' = requests w1 @ [IndexUpsert [vectorData (toCamelCase (assign old upd)) v]]"
      by (simp add: w' Pinecone_upsert_requests key)
    ultimately show "\<exists>old merged k.
             rows w ident = Some old
             \<and> merged = assign old upd
             \<and> row_id merged = Some k \<and> rows w' k = Some merged
             \<and> data r1 = Some (toCamelCase merged)
             \<and> w' = snd (Pinecone_updateAccessPoint (toCamelCase merged) w1)
             \<and> (\<forall>v. generateEmbedding (openai_api_key w) (toCamelCase merged) = Inr v \<longrightarrow>
                   requests w' = requests w1 @ [IndexUpsert [vectorData (toCamelCase merged) v]])"
      using old k r1 w' by (simp add: Pinecone_updateAccessPoint_def)
  qed
  from same failed merged show ?thesis
    unfolding upd_def by blast
qed

theorem update_asymmetry_witness:
  "success (fst (DataSync_updateAccessPoint (js ''x1'') new_description stale_index_world))
   \<and> \<not> success (fst (Pinecone_updateAccessPoint (toCamelCase merged_row)
          (snd (Supabase_updateAccessPoint (js ''x1'') new_description stale_index_world))))
   \<and> rows (snd (DataSync_updateAccessPoint (js ''x1'') new_description stale_index_world)) (js ''x1'')
       = Some merged_row
   \<and> get_prop merged_row (js ''description'') = JStr (js ''new endpoint'')
   \<and> \<not> success (fst (DataSync_updateAccessPoint (js ''x1'') new_description empty_world))
   \<and> vectors (snd (DataSync_updateAccessPoint (js ''x1'') new_description empty_world))
       = vectors empty_world"
proof -
  let ?k = "js ''x1''"
  let ?s = "Supabase_updateAccessPoint ?k new_description stale_index_world"
  let ?d = "DataSync_updateAccessPoint ?k new_description stale_index_world"
  let ?se = "Supabase_updateAccessPoint ?k new_description empty_world"
  let ?de = "DataSync_updateAccessPoint ?k new_description empty_world"
  obtain s where "textToEmbed (toCamelCase merged_row) = Inr s"
    using textToEmbed_arrays [OF camel_merged_arrays(1) camel_merged_arrays(2)] by blast
  then have emb: "generateEmbedding None (toCamelCase merged_row) = Inr (hash_vector s)"
    by (simp add: generateEmbedding_def)
  have idx: "\<not> success (fst (Pinecone_updateAccessPoint (toCamelCase merged_row) (snd ?s)))"
    by (simp add: update_stale Pinecone_updateAccessPoint_def
        Pinecone_upsert_eq [where v = "hash_vector s" and k = "js ''x1''"] emb camel_merged_arrays)
  have descr: "get_prop merged_row (js ''description'') = JStr (js ''new endpoint'')"
    by (simp add: merged_row_def get_prop_def js_def)
  have stored: "rows (snd ?d) (js ''x1'') = Some merged_row"
    by (simp add: DataSync_updateAccessPoint_def update_stale Pinecone_updateAccessPoint_def split_beta)
  show ?thesis
    using update_asymmetry [of ?k new_description stale_index_world "fst ?s" "snd ?s" "fst ?d" "snd ?d"]
      update_asymmetry [of ?k new_description empty_world "fst ?se" "snd ?se" "fst ?de" "snd ?de"]
      idx descr stored update_empty
    by (auto simp add: update_stale)
qed

section \<open>Bulk synchronisation\<close>

lemma Supabase_bulkInsert_eq:
  assumes "batch = map json_body (map (\<lambda>ap. with_timestamps (now w) (toSnakeCase ap)) accessPoints)"
  shows "Supabase_bulkInsertAccessPoints accessPoints w =
     (case (case pending w 0 of
              Some e \<Rightarrow> Some e
            | None \<Rightarrow>
                if list_ex (\<lambda>row. row_id row = None) batch then Some not_null_violation
                else if \<not> distinct (map row_id batch) then Some cardinality_violation
                else None) of
        Some e \<Rightarrow>
          (if err_code e = js ''42501'' \<and> str_includes (err_message e) (js ''row-level security policy'')
           then failure (js ''Row-level security policy violation. Please ensure your API key has the necessary permissions.'')
           else failure (js ''Failed to bulk insert access points: '' @ err_message e),
           advance (StoreUpsert batch) w)
      | None \<Rightarrow>
          (ok_void, (advance (StoreUpsert batch) w)\<lparr>rows := foldl upsert_row (rows w) batch\<rparr>))"
  using assms
  by (simp add: Supabase_bulkInsertAccessPoints_def sb_upsert_def issue_eq Let_def split: option.splits)

lemma px_upsert_eq:
  "px_upsert batch w =
     (case pending w 0 of
        Some e \<Rightarrow> (Some e, advance (IndexUpsert batch) w)
      | None \<Rightarrow>
          if list_ex (\<lambda>v. vector_key v = None) batch
          then (Some invalid_vector_id, advance (IndexUpsert batch) w)
          else (None, (advance (IndexUpsert batch) w)
                  \<lparr>vectors := foldl put_vector (vectors w) batch\<rparr>))"
  by (simp add: px_upsert_def issue_eq split: option.splits)

lemma px_upsert_rows [simp]: "rows (snd (px_upsert batch w)) = rows w"
  by (simp add: px_upsert_eq split: option.splits)

lemma upsert_chunks_Nil: "upsert_chunks [] w = (None, w)"
  by (subst upsert_chunks.simps) simp

lemma upsert_chunks_step:
  "vs \<noteq> [] \<Longrightarrow>
   upsert_chunks vs w =
     (case px_upsert (take chunkSize vs) w of
        (Some e, w') \<Rightarrow> (Some e, w')
      | (None, w') \<Rightarrow> upsert_chunks (drop chunkSize vs) w')"
  by (subst upsert_chunks.simps) simp

lemma upsert_chunks_rows [simp]: "rows (snd (upsert_chunks vs w)) = rows w"
proof (induction vs w rule: upsert_chunks.induct)
  case (1 vs w)
  show ?case
  proof (cases "vs = []")
    case True
    then show ?thesis by (simp add: upsert_chunks_Nil)
  next
    case False
    obtain o1 w1 where p: "px_upsert (take chunkSize vs) w = (o1, w1)"
      by (cases "px_upsert (take chunkSize vs) w")
    have r: "rows w1 = rows w"
      using px_upsert_rows [of "take chunkSize vs" w] by (simp add: p)
    show ?thesis
    proof (cases o1)
      case None
      with False p 1 [of None w1] have "rows (snd (upsert_chunks (drop chunkSize vs) w1)) = rows w1"
        by simp
      with False p None r show ?thesis
        by (simp add: upsert_chunks_step)
    next
      case (Some e)
      with False p r show ?thesis
        by (simp add: upsert_chunks_step)
    qed
  qed
qed

lemma Pinecone_bulk_rows [simp]: "rows (snd (Pinecone_bulkUpsertAccessPoints accessPoints w)) = rows w"
  by (simp add: Pinecone_bulkUpsertAccessPoints_def split_beta split: sum.splits option.splits)

lemma upsert_chunks_single: "upsert_chunks [v] w = px_upsert [v] w"
  by (cases "px_upsert [v] w")
    (simp add: upsert_chunks_step upsert_chunks_Nil chunkSize_def split: option.splits)

lemma Pinecone_bulk_demo:
  "Pinecone_bulkUpsertAccessPoints [obj_of demo] w =
     (case pending w 0 of
        Some e \<Rightarrow>
          (failure (js ''Failed to bulk upsert to Pinecone: '' @ err_message e),
           advance (IndexUpsert [vectorData (obj_of demo) (hash_vector demo_text)]) w)
      | None \<Rightarrow>
          (ok_void,
           (advance (IndexUpsert [vectorData (obj_of demo) (hash_vector demo_text)]) w)
             \<lparr>vectors := (vectors w)(js ''x1'' \<mapsto> vectorData (obj_of demo) (hash_vector demo_text))\<rparr>))"
  by (simp add: Pinecone_bulkUpsertAccessPoints_def generateEmbedding_demo upsert_chunks_single
      px_upsert_eq vector_key_def put_vector_def vectorData_def id_demo split: option.splits)

lemma Supabase_bulk_demo:
  "Supabase_bulkInsertAccessPoints [obj_of demo] w =
     (case pending w 0 of
        Some e \<Rightarrow>
          (if err_code e = js ''42501'' \<and> str_includes (err_message e) (js ''row-level security policy'')
           then failure (js ''Row-level security policy violation. Please ensure your API key has the necessary permissions.'')
           else failure (js ''Failed to bulk insert access points: '' @ err_message e),
           advance (StoreUpsert [json_body (with_timestamps (now w) (toSnakeCase (obj_of demo)))]) w)
      | None \<Rightarrow>
          (ok_void,
           (advance (StoreUpsert [json_body (with_timestamps (now w) (toSnakeCase (obj_of demo)))]) w)
             \<lparr>rows := upsert_row (rows w) (json_body (with_timestamps (now w) (toSnakeCase (obj_of demo))))\<rparr>))"
  by (simp add: Supabase_bulkInsert_eq [OF refl] row_id_obj_of split: option.splits)

lemma world_pendings [simp]:
  "pending store_down_world 0 = Some unavailable"
  "pending rollback_world 0 = None"
  "pending rollback_world (Suc 0) = Some unavailable"
  "pending rollback_world (Suc (Suc 0)) = None"
  "pending orphan_world 0 = None"
  "pending orphan_world (Suc 0) = Some unavailable"
  "pending orphan_world (Suc (Suc 0)) = Some unavailable"
  by (simp_all add: store_down_world_def rollback_world_def orphan_world_def)


text \<open>
  C6. \<open>DataSyncManager.bulkSyncAccessPoints\<close>: when the batch write to the store fails,
  the result is a failure, the store and the index are as before and no request goes to
  the index. When the store write succeeds, the bulk upsert to the index runs; when that
  succeeds the result is a success after this one run. When it fails it runs once more:
  the result is a success when the second run succeeds and the failure ``Failed to sync
  to Pinecone after retry. Supabase sync was successful.'' when the second run fails as
  well; there is no third run, and in every case the store keeps what the batch write
  stored.
\<close>

theorem bulk_sync_retry_once:
  assumes store: "Supabase_bulkInsertAccessPoints accessPoints w = (r0, w1)"
    and first: "Pinecone_bulkUpsertAccessPoints accessPoints w1 = (r1, w2)"
    and retry: "Pinecone_bulkUpsertAccessPoints accessPoints w2 = (r2, w3)"
    and whole: "DataSync_bulkSyncAccessPoints accessPoints w = (r, w')"
  shows "(\<not> success r0 \<longrightarrow>
            \<not> success r \<and> w' = w1 \<and> rows w' = rows w \<and> vectors w' = vectors w
            \<and> filter is_index_request (requests w') = filter is_index_request (requests w))
       \<and> (success r0 \<and> success r1 \<longrightarrow> r = ok_void \<and> w' = w2)
       \<and> (success r0 \<and> \<not> success r1 \<and> success r2 \<longrightarrow> r = ok_void \<and> w' = w3)
       \<and> (success r0 \<and> \<not> success r1 \<and> \<not> success r2 \<longrightarrow>
            r = failure (js ''Failed to sync to Pinecone after retry. Supabase sync was successful.'')
            \<and> w' = w3)
       \<and> (success r0 \<longrightarrow> rows w' = rows w1)"
proof -
  have untouched: "rows w1 = rows w \<and> vectors w1 = vectors w
      \<and> filter is_index_request (requests w1) = filter is_index_request (requests w)"
    if "\<not> success r0"
    using store that
    by (simp add: Supabase_bulkInsert_eq [OF refl] split: option.splits if_splits) auto
  have whole': "(r, w') =
      (if \<not> success r0
       then (failure (js ''Failed to bulk sync to Supabase: '' @
               (case error r0 of Some m \<Rightarrow> m | None \<Rightarrow> js ''undefined'')), w1)
       else if \<not> success r1
         then (if \<not> success r2
               then (failure (js ''Failed to sync to Pinecone after retry. Supabase sync was successful.''), w3)
               else (ok_void, w3))
         else (ok_void, w2))"
    using whole
    by (cases "success r0"; cases "success r1"; cases "success r2")
      (simp_all add: DataSync_bulkSyncAccessPoints_def store first retry)
  have down: "\<not> success r0 \<longrightarrow>
            \<not> success r \<and> w' = w1 \<and> rows w' = rows w \<and> vectors w' = vectors w
            \<and> filter is_index_request (requests w') = filter is_index_request (requests w)"
  proof
    assume f: "\<not> success r0"
    with whole' have "r = failure (js ''Failed to bulk sync to Supabase: '' @
               (case error r0 of Some m \<Rightarrow> m | None \<Rightarrow> js ''undefined''))" and "w' = w1"
      by simp_all
    with untouched [OF f] show "\<not> success r \<and> w' = w1 \<and> rows w' = rows w \<and> vectors w' = vectors w
            \<and> filter is_index_request (requests w') = filter is_index_request (requests w)"
      by simp
  qed
  have flow: "(success r0 \<and> success r1 \<longrightarrow> r = ok_void \<and> w' = w2)
       \<and> (success r0 \<and> \<not> success r1 \<and> success r2 \<longrightarrow> r = ok_void \<and> w' = w3)
       \<and> (success r0 \<and> \<not> success r1 \<and> \<not> success r2 \<longrightarrow>
            r = failure (js ''Failed to sync to Pinecone after retry. Supabase sync was successful.'')
            \<and> w' = w3)"
    using whole' by (auto split: if_splits)
  have r2: "rows w2 = rows w1"
    using Pinecone_bulk_rows [of accessPoints w1] by (simp add: first)
  have r3: "rows w3 = rows w2"
    using Pinecone_bulk_rows [of accessPoints w2] by (simp add: retry)
  have kept: "success r0 \<longrightarrow> rows w' = rows w1"
    using flow r2 r3 by (cases "success r1"; cases "success r2") simp_all
  from down flow kept show ?thesis by blast
qed

theorem bulk_sync_retry_once_witness:
  "\<not> success (fst (DataSync_bulkSyncAccessPoints [obj_of demo] store_down_world))
   \<and> vectors (snd (DataSync_bulkSyncAccessPoints [obj_of demo] store_down_world)) = vectors store_down_world
   \<and> fst (DataSync_bulkSyncAccessPoints [obj_of demo] empty_world) = ok_void
   \<and> fst (DataSync_bulkSyncAccessPoints [obj_of demo] rollback_world) = ok_void
   \<and> fst (DataSync_bulkSyncAccessPoints [obj_of demo] orphan_world)
       = failure (js ''Failed to sync to Pinecone after retry. Supabase sync was successful.'')"
proof -
  let ?a = "[obj_of demo]"
  note t = bulk_sync_retry_once [OF surjective_pairing surjective_pairing surjective_pairing surjective_pairing]
  have d: "\<not> success (fst (Supabase_bulkInsertAccessPoints ?a store_down_world))"
    by (simp add: Supabase_bulk_demo)
  have e0: "success (fst (Supabase_bulkInsertAccessPoints ?a empty_world))"
    by (simp add: Supabase_bulk_demo)
  have e1: "success (fst (Pinecone_bulkUpsertAccessPoints ?a (snd (Supabase_bulkInsertAccessPoints ?a empty_world))))"
    by (simp add: Supabase_bulk_demo Pinecone_bulk_demo)
  have r0: "success (fst (Supabase_bulkInsertAccessPoints ?a rollback_world))"
    by (simp add: Supabase_bulk_demo)
  have r1: "\<not> success (fst (Pinecone_bulkUpsertAccessPoints ?a (snd (Supabase_bulkInsertAccessPoints ?a rollback_world))))"
    by (simp add: Supabase_bulk_demo Pinecone_bulk_demo)
  have r2: "success (fst (Pinecone_bulkUpsertAccessPoints ?a
        (snd (Pinecone_bulkUpsertAccessPoints ?a (snd (Supabase_bulkInsertAccessPoints ?a rollback_world))))))"
    by (simp add: Supabase_bulk_demo Pinecone_bulk_demo)
  have o0: "success (fst (Supabase_bulkInsertAccessPoints ?a orphan_world))"
    by (simp add: Supabase_bulk_demo)
  have o1: "\<not> success (fst (Pinecone_bulkUpsertAccessPoints ?a (snd (Supabase_bulkInsertAccessPoints ?a orphan_world))))"
    by (simp add: Supabase_bulk_demo Pinecone_bulk_demo)
  have o2: "\<not> success (fst (Pinecone_bulkUpsertAccessPoints ?a
        (snd (Pinecone_bulkUpsertAccessPoints ?a (snd (Supabase_bulkInsertAccessPoints ?a orphan_world))))))"
    by (simp add: Supabase_bulk_demo Pinecone_bulk_demo)
  show ?thesis
    using t [of ?a store_down_world] t [of ?a empty_world] t [of ?a rollback_world]
      t [of ?a orphan_world] d e0 e1 r0 r1 r2 o0 o1 o2
    by auto
qed

section \<open>Searching\<close>

lemma Pinecone_search_eq:
  assumes "generateEmbedding (openai_api_key w) (queryAccessPoint query) = Inr qv"
  shows "Pinecone_searchSimilar query topK w =
     (case pending w 0 of
        Some e \<Rightarrow>
          (failure (js ''Failed to search Pinecone: '' @ err_message e),
           advance (IndexQuery qv topK) w)
      | None \<Rightarrow> (ok (nearest w (vectors w) qv topK), advance (IndexQuery qv topK) w))"
  using assms
  by (simp add: Pinecone_searchSimilar_def px_query_def issue_eq split: option.splits)

lemma fetch_each_fst:
  "fst (fetch_each ids acc w) =
     acc @ List.map_filter
             (\<lambda>p. if snd p = None then map_option toCamelCase (rows w (fst p)) else None)
             (zip ids (map (pending w) [0..<length ids]))"
proof (induction ids arbitrary: acc w)
  case Nil
  then show ?case by (simp add:)
next
  case (Cons ident ids)
  let ?w = "advance (StoreSelect ident) w"
  define outcomes where "outcomes = map (pending ?w) [0..<length ids]"
  define resolve :: "jsstring \<times> backend_error option \<Rightarrow> jsobj option" where
    "resolve = (\<lambda>p. if snd p = None then map_option toCamelCase (rows w (fst p)) else None)"
  have same: "(\<lambda>p. if snd p = None then map_option toCamelCase (rows ?w (fst p)) else None) = resolve"
    by (simp add: resolve_def fun_eq_iff)
  have ih: "fst (fetch_each ids acc' ?w) = acc' @ List.map_filter resolve (zip ids outcomes)" for acc'
    by (simp only: Cons.IH same outcomes_def)
  have shift: "map (pending ?w) [0..<length ids] = map (pending w) [Suc 0..<Suc (length ids)]"
    by (simp add: map_Suc_upt [symmetric] del: upt_Suc)
  have z: "zip (ident # ids) (map (pending w) [0..<length (ident # ids)])
      = (ident, pending w 0) # zip ids outcomes"
    by (simp add: outcomes_def shift upt_conv_Cons del: upt_Suc)
  have "fst (fetch_each (ident # ids) acc w)
      = acc @ List.map_filter resolve ((ident, pending w 0) # zip ids outcomes)"
    by (simp add: Supabase_get_eq ih resolve_def [symmetric] split: option.splits)
      (simp add: resolve_def)
  then show ?case
    by (simp only: z resolve_def)
qed

lemma pending_no_faults: "faults w = [] \<Longrightarrow> pending w n = None"
  by (simp add: pending_def)

lemma fetch_each_no_faults:
  "faults w = [] \<Longrightarrow>
   fst (fetch_each ids acc w) =
     acc @ List.map_filter (\<lambda>ident. map_option toCamelCase (rows w ident)) ids"
proof (induction ids arbitrary: acc w)
  case Nil
  then show ?case by (simp add:)
next
  case (Cons ident ids)
  have "faults (advance (StoreSelect ident) w) = []"
    using Cons.prems by simp
  then show ?case
    using Cons.prems
    by (simp add: Supabase_get_eq Cons.IH pending_no_faults split: option.splits)
qed

lemma search_world_fields [simp]:
  "rows search_world = [js ''x1'' \<mapsto> stocked_row]"
  "faults search_world = []"
  "nearest search_world ix v k =
     take k [\<lparr>match_id = js ''gone'', match_score = 1\<rparr>, \<lparr>match_id = js ''x1'', match_score = 0\<rparr>]"
  "search_rpc search_world t q = (case t (js ''x1'') of None \<Rightarrow> [] | Some row \<Rightarrow> [row])"
  by (simp_all add: search_world_def)

lemma index_down_world_fields [simp]:
  "rows index_down_world = [js ''x1'' \<mapsto> stocked_row]"
  "faults index_down_world = [Some unavailable]"
  "search_rpc index_down_world t q = (case t (js ''x1'') of None \<Rightarrow> [] | Some row \<Rightarrow> [row])"
  by (simp_all add: index_down_world_def)

lemma Pinecone_search_faults:
  "faults (snd (Pinecone_searchSimilar query topK w)) = tl (faults w)"
proof -
  obtain s where "textToEmbed (queryAccessPoint query) = Inr s"
    using textToEmbed_query by blast
  then have "generateEmbedding (openai_api_key w) (queryAccessPoint query) = Inr (hash_vector s)"
    by (simp add: generateEmbedding_def)
  then show ?thesis
    by (simp add: Pinecone_search_eq split: option.splits)
qed

lemma Pinecone_search_success:
  "success (fst (Pinecone_searchSimilar query topK w)) = (pending w 0 = None)"
proof -
  obtain s where "textToEmbed (queryAccessPoint query) = Inr s"
    using textToEmbed_query by blast
  then have "generateEmbedding (openai_api_key w) (queryAccessPoint query) = Inr (hash_vector s)"
    by (simp add: generateEmbedding_def)
  then show ?thesis
    by (simp add: Pinecone_search_eq split: option.splits)
qed

lemma Pinecone_search_rows [simp]:
  "rows (snd (Pinecone_searchSimilar query topK w)) = rows w"
  "search_rpc (snd (Pinecone_searchSimilar query topK w)) = search_rpc w"
  by (simp_all add: Pinecone_searchSimilar_def px_query_def issue_eq split: sum.splits option.splits)

lemma Supabase_search_eq:
  "Supabase_searchAccessPoints query w =
     (case pending w 0 of
        Some e \<Rightarrow>
          (failure (js ''Failed to search access points: '' @ err_message e),
           advance (StoreRpc query) w)
      | None \<Rightarrow> (ok (map toCamelCase (search_rpc w (rows w) query)), advance (StoreRpc query) w))"
  by (simp add: Supabase_searchAccessPoints_def sb_rpc_search_def issue_eq split: option.splits)


text \<open>
  C8. \<open>DataSyncManager.searchAccessPoints\<close>: when the similarity query to the index
  fails, the result is the result of the text search of the store. When it succeeds,
  the result is a success whose data are the records of the store for the ids of the
  matches, in the order of the matches, each fetched by its own request; an id is left
  out when its request is rejected or the store has no row for it. When no request to
  the store is rejected, these are exactly the ids that the store holds.
\<close>

theorem search_ranked_or_fallback:
  assumes index: "Pinecone_searchSimilar query topK w = (r1, w1)"
  shows "(\<not> success r1 \<longrightarrow>
            DataSync_searchAccessPoints query topK w = Supabase_searchAccessPoints query w1)
       \<and> (success r1 \<longrightarrow>
            (\<exists>qv ids.
               generateEmbedding (openai_api_key w) (queryAccessPoint query) = Inr qv
               \<and> ids = map match_id (nearest w (vectors w) qv topK)
               \<and> data r1 = Some (nearest w (vectors w) qv topK)
               \<and> fst (DataSync_searchAccessPoints query topK w)
                   = ok (List.map_filter
                          (\<lambda>p. if snd p = None then map_option toCamelCase (rows w (fst p))
                               else None)
                          (zip ids (map (pending w1) [0..<length ids])))
               \<and> (faults w1 = [] \<longrightarrow>
                     fst (DataSync_searchAccessPoints query topK w)
                       = ok (List.map_filter (\<lambda>ident. map_option toCamelCase (rows w ident)) ids))))"
proof -
  obtain s where "textToEmbed (queryAccessPoint query) = Inr s"
    using textToEmbed_query by blast
  then have emb: "generateEmbedding (openai_api_key w) (queryAccessPoint query) = Inr (hash_vector s)"
    by (simp add: generateEmbedding_def)
  note p = Pinecone_search_eq [OF emb]
  let ?matches = "nearest w (vectors w) (hash_vector s) topK"
  have fallback: "\<not> success r1 \<longrightarrow>
      DataSync_searchAccessPoints query topK w = Supabase_searchAccessPoints query w1"
    using index by (simp add: DataSync_searchAccessPoints_def)
  have ranked: "success r1 \<longrightarrow>
      data r1 = Some ?matches
      \<and> fst (DataSync_searchAccessPoints query topK w)
          = ok (fst (fetch_each (map match_id ?matches) [] w1))
      \<and> rows w1 = rows w"
    using index
    by (auto simp add: DataSync_searchAccessPoints_def p split_beta split: option.splits)
  show ?thesis
  proof (intro conjI impI)
    show "DataSync_searchAccessPoints query topK w = Supabase_searchAccessPoints query w1"
      if "\<not> success r1"
      using fallback that by simp
    show "\<exists>qv ids.
               generateEmbedding (openai_api_key w) (queryAccessPoint query) = Inr qv
               \<and> ids = map match_id (nearest w (vectors w) qv topK)
               \<and> data r1 = Some (nearest w (vectors w) qv topK)
               \<and> fst (DataSync_searchAccessPoints query topK w)
                   = ok (List.map_filter
                          (\<lambda>p. if snd p = None then map_option toCamelCase (rows w (fst p))
                               else None)
                          (zip ids (map (pending w1) [0..<length ids])))
               \<and> (faults w1 = [] \<longrightarrow>
                     fst (DataSync_searchAccessPoints query topK w)
                       = ok (List.map_filter (\<lambda>ident. map_option toCamelCase (rows w ident)) ids))"
      if "success r1"
    proof (intro exI [of _ "hash_vector s"] exI [of _ "map match_id ?matches"] conjI impI)
      from ranked that have d: "data r1 = Some ?matches"
        and f: "fst (DataSync_searchAccessPoints query topK w)
          = ok (fst (fetch_each (map match_id ?matches) [] w1))"
        and r: "rows w1 = rows w"
        by simp_all
      show "generateEmbedding (openai_api_key w) (queryAccessPoint query) = Inr (hash_vector s)"
        by (rule emb)
      show "map match_id ?matches = map match_id ?matches"
        by (rule refl)
      show "data r1 = Some ?matches"
        by (rule d)
      show "fst (DataSync_searchAccessPoints query topK w)
          = ok (List.map_filter
                 (\<lambda>p. if snd p = None then map_option toCamelCase (rows w (fst p)) else None)
                 (zip (map match_id ?matches)
                   (map (pending w1) [0..<length (map match_id ?matches)])))"
        using fetch_each_fst [of "map match_id ?matches" "[]" w1]
        by (simp only: f r append_Nil)
      show "fst (DataSync_searchAccessPoints query topK w)
          = ok (List.map_filter (\<lambda>ident. map_option toCamelCase (rows w ident))
                 (map match_id ?matches))"
        if "faults w1 = []"
        using fetch_each_no_faults [OF that, of "map match_id ?matches" "[]"]
        by (simp only: f r append_Nil)
    qed
  qed
qed

theorem search_ranked_or_fallback_witness:
  "fst (DataSync_searchAccessPoints (js ''demo'') 10 search_world) = ok [toCamelCase stocked_row]
   \<and> \<not> success (fst (Pinecone_searchSimilar (js ''demo'') 10 index_down_world))
   \<and> DataSync_searchAccessPoints (js ''demo'') 10 index_down_world
       = Supabase_searchAccessPoints (js ''demo'')
           (snd (Pinecone_searchSimilar (js ''demo'') 10 index_down_world))
   \<and> fst (DataSync_searchAccessPoints (js ''demo'') 10 index_down_world)
       = ok [toCamelCase stocked_row]"
proof -
  let ?q = "js ''demo''"
  let ?up = "Pinecone_searchSimilar ?q 10 search_world"
  let ?down = "Pinecone_searchSimilar ?q 10 index_down_world"
  have up: "success (fst ?up)" and quiet: "faults (snd ?up) = []"
    by (simp_all add: Pinecone_search_success Pinecone_search_faults pending_def)
  have down: "\<not> success (fst ?down)"
    by (simp add: Pinecone_search_success pending_def)
  have gone: "js ''gone'' \<noteq> js ''x1''"
    by (simp add: js_def)
  from search_ranked_or_fallback [OF surjective_pairing, of ?q 10 search_world] up quiet
  have ranked: "fst (DataSync_searchAccessPoints ?q 10 search_world) = ok [toCamelCase stocked_row]"
    by (auto simp add: gone)
  from search_ranked_or_fallback [OF surjective_pairing, of ?q 10 index_down_world] down
  have fallback: "DataSync_searchAccessPoints ?q 10 index_down_world
      = Supabase_searchAccessPoints ?q (snd ?down)"
    by simp
  have "fst (Supabase_searchAccessPoints ?q (snd ?down)) = ok [toCamelCase stocked_row]"
    by (simp add: Supabase_search_eq pending_def Pinecone_search_faults)
  with ranked down fallback show ?thesis
    by simp
qed

end
